theory Spec2Isabelle
  imports Complex_Main
begin

section \<open>Duplicate-event detector: data model\<close>

text \<open>
  The detector of \<^verbatim>\<open>utils/duplicateDetection.js\<close> (class \<^verbatim>\<open>DuplicateEventDetector\<close>).
  JavaScript numbers are modelled as exact reals, instants as integer milliseconds since
  the epoch, and strings as ASCII character lists (a \<^verbatim>\<open>null\<close>, \<^verbatim>\<open>undefined\<close> or empty text is
  falsy in the source and is the empty string here).
\<close>

record address =
  street :: "string option"
  city :: "string option"

record coordinates =
  latitude :: "real option"
  longitude :: "real option"

record venue =
  name :: string
  address :: "address option"
  coordinates :: "coordinates option"

text \<open>
  An event as the detector reads it. \<open>organizer\<close> is \<open>None\<close> when the field is
  \<^verbatim>\<open>null\<close> or \<^verbatim>\<open>undefined\<close> (then \<^verbatim>\<open>organizer.toString()\<close> throws), otherwise the
  string that \<^verbatim>\<open>toString()\<close> returns.
\<close>

record event =
  ident :: string
  status :: string
  title :: string
  description :: string
  category :: string
  venue :: venue
  start :: int
  organizer :: "string option"

datatype js_error = TypeError | StoreError | Error string

text \<open>The fields set by the constructor.\<close>

definition similarityThreshold :: real where
  "similarityThreshold = 0.8"

definition dateProximityDays :: nat where
  "dateProximityDays = 7"

definition venueProximityKm :: real where
  "venueProximityKm = 5"

section \<open>Strings\<close>

definition isSpace :: "char \<Rightarrow> bool" where
  "isSpace c = (let n = (of_char c :: nat) in (9 \<le> n \<and> n \<le> 13) \<or> n = 32)"

definition isWordChar :: "char \<Rightarrow> bool" where
  "isWordChar c = (let n = (of_char c :: nat) in
     (48 \<le> n \<and> n \<le> 57) \<or> (65 \<le> n \<and> n \<le> 90) \<or> n = 95 \<or> (97 \<le> n \<and> n \<le> 122))"

definition toLowerChar :: "char \<Rightarrow> char" where
  "toLowerChar c =
     (case map_of (zip ''ABCDEFGHIJKLMNOPQRSTUVWXYZ'' ''abcdefghijklmnopqrstuvwxyz'') c of
        Some l \<Rightarrow> l
      | None \<Rightarrow> c)"

definition toLowerCase :: "string \<Rightarrow> string" where
  "toLowerCase s = map toLowerChar s"

definition trim :: "string \<Rightarrow> string" where
  "trim s = rev (dropWhile isSpace (rev (dropWhile isSpace s)))"

text \<open>\<^verbatim>\<open>s.replace(/[^\w\s]/g, '')\<close>\<close>

definition stripNonWord :: "string \<Rightarrow> string" where
  "stripNonWord s = filter (\<lambda>c. isWordChar c \<or> isSpace c) s"

definition normalize :: "string \<Rightarrow> string" where
  "normalize s = stripNonWord (trim (toLowerCase s))"

text \<open>
  \<^verbatim>\<open>s.split(/\s+/)\<close>: the pieces between maximal runs of whitespace; a leading or
  trailing run leaves an empty piece, and the empty string gives one empty piece.
  The flag says that the previous character was whitespace, \<open>acc\<close> is the current
  piece reversed.
\<close>

fun splitAcc :: "bool \<Rightarrow> string \<Rightarrow> string \<Rightarrow> string list" where
  "splitAcc inWs acc [] = [rev acc]"
| "splitAcc inWs acc (c # cs) =
     (if isSpace c then (if inWs then splitAcc True [] cs else rev acc # splitAcc True [] cs)
      else splitAcc False (c # acc) cs)"

definition splitWs :: "string \<Rightarrow> string list" where
  "splitWs s = splitAcc False [] s"

text \<open>\<^verbatim>\<open>new Set(xs)\<close> as the list of its elements in insertion order.\<close>

definition setAdd :: "'a list \<Rightarrow> 'a \<Rightarrow> 'a list" where
  "setAdd xs x = (if x \<in> set xs then xs else xs @ [x])"

definition newSet :: "'a list \<Rightarrow> 'a list" where
  "newSet xs = foldl setAdd [] xs"

section \<open>SimilarityScorer\<close>

text \<open>
  \<^verbatim>\<open>levenshteinDistance\<close> fills the matrix row by row. \<open>fillRow c str2 prev left\<close>
  computes the cells \<open>matrix[i][1..]\<close> of the row of character \<open>c = str1[i-1]\<close> from the
  previous row \<open>prev = matrix[i-1]\<close>, whose head is the diagonal cell, and the cell to
  the left.
\<close>

fun fillRow :: "char \<Rightarrow> string \<Rightarrow> nat list \<Rightarrow> nat \<Rightarrow> nat list" where
  "fillRow c (d # ds) (diag # up # rest) left =
     (let v = (if c = d then diag else min (diag + 1) (min (left + 1) (up + 1)))
      in v # fillRow c ds (up # rest) v)"
| "fillRow c ds prev left = []"

fun fillMatrix :: "nat \<Rightarrow> string \<Rightarrow> string \<Rightarrow> nat list \<Rightarrow> nat list" where
  "fillMatrix i [] str2 prev = prev"
| "fillMatrix i (c # cs) str2 prev = fillMatrix (Suc i) cs str2 (i # fillRow c str2 prev i)"

definition levenshteinDistance :: "string \<Rightarrow> string \<Rightarrow> nat" where
  "levenshteinDistance str1 str2 = last (fillMatrix 1 str1 str2 [0 ..< Suc (length str2)])"

text \<open>
  The cell \<open>matrix[i][j]\<close> as the initialisation and the two nested loops assign it,
  for \<open>i \<le> len1\<close> and \<open>j \<le> len2\<close>.
\<close>

fun matrix :: "string \<Rightarrow> string \<Rightarrow> nat \<Rightarrow> nat \<Rightarrow> nat" where
  "matrix str1 str2 0 j = j"
| "matrix str1 str2 (Suc i) 0 = Suc i"
| "matrix str1 str2 (Suc i) (Suc j) =
     (if str1 ! i = str2 ! j then matrix str1 str2 i j
      else min (matrix str1 str2 i j + 1)
             (min (matrix str1 str2 (Suc i) j + 1) (matrix str1 str2 i (Suc j) + 1)))"

definition calculateTextSimilarity :: "string \<Rightarrow> string \<Rightarrow> real" where
  "calculateTextSimilarity text1 text2 =
     (if text1 = [] \<or> text2 = [] then 0
      else let normalized1 = normalize text1; normalized2 = normalize text2 in
        if normalized1 = normalized2 then 1
        else let maxLength = max (length normalized1) (length normalized2) in
          if maxLength = 0 then 1
          else 1 - real (levenshteinDistance normalized1 normalized2) / real maxLength)"

definition wordSet :: "string \<Rightarrow> string list" where
  "wordSet text = newSet (filter (\<lambda>word. length word > 2) (splitWs (toLowerCase text)))"

definition calculateJaccardSimilarity :: "string \<Rightarrow> string \<Rightarrow> real" where
  "calculateJaccardSimilarity text1 text2 =
     (if text1 = [] \<or> text2 = [] then 0
      else let words1 = wordSet text1; words2 = wordSet text2;
               intersection = newSet (filter (\<lambda>word. word \<in> set words2) words1);
               union = newSet (words1 @ words2)
           in if length union = 0 then 0 else real (length intersection) / real (length union))"

definition calculateCombinedSimilarity :: "string \<Rightarrow> string \<Rightarrow> real" where
  "calculateCombinedSimilarity text1 text2 =
     (let levenshtein = calculateTextSimilarity text1 text2;
          jaccard = calculateJaccardSimilarity text1 text2
      in levenshtein * 0.6 + jaccard * 0.4)"

text \<open>
  \<^verbatim>\<open>calculateDateProximity\<close>: the instants are milliseconds, \<open>diffDays\<close> is
  \<^verbatim>\<open>Math.ceil(diffTime / (1000 * 60 * 60 * 24))\<close>.
\<close>

definition calculateDateProximity :: "int \<Rightarrow> int \<Rightarrow> real" where
  "calculateDateProximity date1 date2 =
     (let diffTime = \<bar>date1 - date2\<bar>;
          diffDays = \<lceil>real_of_int diffTime / (1000 * 60 * 60 * 24)\<rceil>
      in if diffDays = 0 then 1
         else if diffDays > int dateProximityDays then 0
         else 1 - real_of_int diffDays / real dateProximityDays)"

definition toRadians :: "real \<Rightarrow> real" where
  "toRadians degrees = degrees * (pi / 180)"

text \<open>\<^verbatim>\<open>Math.atan2(y, x)\<close> on real arguments.\<close>

definition atan2 :: "real \<Rightarrow> real \<Rightarrow> real" where
  "atan2 y x =
     (if 0 < x then arctan (y / x)
      else if x < 0 then (if 0 \<le> y then arctan (y / x) + pi else arctan (y / x) - pi)
      else if 0 < y then pi / 2
      else if y < 0 then - (pi / 2)
      else 0)"

text \<open>
  \<^verbatim>\<open>calculateDistance\<close> (Haversine). \<^verbatim>\<open>Math.sqrt\<close> of a negative number is
  \<^verbatim>\<open>NaN\<close>, and so is everything computed from it: that result is \<open>None\<close>.
\<close>

definition calculateDistance :: "real \<Rightarrow> real \<Rightarrow> real \<Rightarrow> real \<Rightarrow> real option" where
  "calculateDistance lat1 lon1 lat2 lon2 =
     (let R = 6371;
          dLat = toRadians (lat2 - lat1);
          dLon = toRadians (lon2 - lon1);
          a = sin (dLat / 2) * sin (dLat / 2) +
              cos (toRadians lat1) * cos (toRadians lat2) * sin (dLon / 2) * sin (dLon / 2)
      in if a < 0 \<or> 1 - a < 0 then None
         else Some (R * (2 * atan2 (sqrt a) (sqrt (1 - a)))))"

text \<open>Truthiness of an optional number: \<^verbatim>\<open>undefined\<close> and \<open>0\<close> are falsy.\<close>

definition truthy :: "real option \<Rightarrow> bool" where
  "truthy x = (case x of None \<Rightarrow> False | Some v \<Rightarrow> v \<noteq> 0)"

text \<open>A template literal prints a missing field as \<^verbatim>\<open>undefined\<close>.\<close>

definition template :: "string option \<Rightarrow> string" where
  "template x = (case x of None \<Rightarrow> ''undefined'' | Some v \<Rightarrow> v)"

definition addressText :: "address \<Rightarrow> string" where
  "addressText a = template (street a) @ '' '' @ template (city a)"

definition geoProximity :: "venue \<Rightarrow> venue \<Rightarrow> real" where
  "geoProximity venue1 venue2 =
     (case (coordinates venue1, coordinates venue2) of
        (Some c1, Some c2) \<Rightarrow>
          if truthy (latitude c1) \<and> truthy (longitude c1) \<and>
             truthy (latitude c2) \<and> truthy (longitude c2)
          then (case calculateDistance (the (latitude c1)) (the (longitude c1))
                                       (the (latitude c2)) (the (longitude c2)) of
                  None \<Rightarrow> 0
                | Some distance \<Rightarrow>
                    if distance \<le> venueProximityKm then 1 - distance / venueProximityKm else 0)
          else 0
      | _ \<Rightarrow> 0)"

definition addressSimilarity :: "venue \<Rightarrow> venue \<Rightarrow> real" where
  "addressSimilarity venue1 venue2 =
     (case (address venue1, address venue2) of
        (Some a1, Some a2) \<Rightarrow> calculateCombinedSimilarity (addressText a1) (addressText a2)
      | _ \<Rightarrow> 0)"

definition calculateVenueProximity :: "venue \<Rightarrow> venue \<Rightarrow> real" where
  "calculateVenueProximity venue1 venue2 =
     (let nameSimilarity = calculateCombinedSimilarity (name venue1) (name venue2)
      in nameSimilarity * 0.5 + geoProximity venue1 venue2 * 0.3 +
         addressSimilarity venue1 venue2 * 0.2)"

section \<open>DuplicateAnalyzer\<close>

record factors =
  titleSimilarity :: real
  descriptionSimilarity :: real
  dateProximity :: real
  venueProximity :: real
  categoryMatch :: real
  organizerMatch :: real

record scored =
  probability :: real
  factors :: factors

definition weight_title :: real where "weight_title = 0.35"
definition weight_description :: real where "weight_description = 0.20"
definition weight_date :: real where "weight_date = 0.15"
definition weight_venue :: real where "weight_venue = 0.15"
definition weight_category :: real where "weight_category = 0.10"
definition weight_organizer :: real where "weight_organizer = 0.05"

text \<open>
  \<^verbatim>\<open>calculateDuplicateProbability\<close>. The only step that can throw on an event whose
  texts, venue and start are present is \<^verbatim>\<open>organizer.toString()\<close>.
\<close>

definition calculateDuplicateProbability :: "event \<Rightarrow> event \<Rightarrow> js_error + scored" where
  "calculateDuplicateProbability event1 event2 =
     (let titleSim = calculateCombinedSimilarity (title event1) (title event2);
          descriptionSim = calculateCombinedSimilarity (description event1) (description event2);
          dateProx = calculateDateProximity (start event1) (start event2);
          venueProx = calculateVenueProximity (venue event1) (venue event2);
          catMatch = (if category event1 = category event2 then 1 else 0)
      in case (organizer event1, organizer event2) of
           (Some o1, Some o2) \<Rightarrow>
             let orgMatch = (if o1 = o2 then 1 else 0) in
             Inr \<lparr> probability =
                     titleSim * weight_title + descriptionSim * weight_description +
                     dateProx * weight_date + venueProx * weight_venue +
                     catMatch * weight_category + orgMatch * weight_organizer,
                   factors = \<lparr> titleSimilarity = titleSim,
                               descriptionSimilarity = descriptionSim,
                               dateProximity = dateProx,
                               venueProximity = venueProx,
                               categoryMatch = catMatch,
                               organizerMatch = orgMatch \<rparr> \<rparr>
         | _ \<Rightarrow> Inl TypeError)"

datatype confidence = VERY_LOW | LOW | MEDIUM | HIGH | VERY_HIGH

definition getConfidenceLevel :: "real \<Rightarrow> confidence" where
  "getConfidenceLevel p =
     (if p \<ge> 0.9 then VERY_HIGH
      else if p \<ge> 0.8 then HIGH
      else if p \<ge> 0.6 then MEDIUM
      else if p \<ge> 0.4 then LOW
      else VERY_LOW)"

text \<open>\<^verbatim>\<open>Math.round\<close> rounds halves up; a template literal prints the integer in decimal.\<close>

definition mathRound :: "real \<Rightarrow> int" where
  "mathRound x = \<lfloor>x + 1 / 2\<rfloor>"

fun digits :: "nat \<Rightarrow> string" where
  "digits n = (if n < 10 then [''0123456789'' ! n]
               else digits (n div 10) @ [''0123456789'' ! (n mod 10)])"

declare digits.simps [simp del]

definition showInt :: "int \<Rightarrow> string" where
  "showInt i = (if i < 0 then ''-'' @ digits (nat (- i)) else digits (nat i))"

definition titleClause :: "real \<Rightarrow> string" where
  "titleClause t = ''Event titles are '' @ showInt (mathRound (t * 100)) @ ''% similar''"

definition descriptionClause :: "real \<Rightarrow> string" where
  "descriptionClause d = ''Event descriptions are '' @ showInt (mathRound (d * 100)) @ ''% similar''"

text \<open>The array \<^verbatim>\<open>explanations\<close> after the six pushes.\<close>

definition explanations :: "factors \<Rightarrow> string list" where
  "explanations f =
     (if titleSimilarity f > 0.8 then [titleClause (titleSimilarity f)] else []) @
     (if descriptionSimilarity f > 0.7 then [descriptionClause (descriptionSimilarity f)] else []) @
     (if dateProximity f > 0.8 then [''Events are scheduled very close in time''] else []) @
     (if venueProximity f > 0.8 then [''Events are at the same or very similar venue''] else []) @
     (if categoryMatch f = 1 then [''Events are in the same category''] else []) @
     (if organizerMatch f = 1 then [''Events have the same organizer''] else [])"

fun join :: "string \<Rightarrow> string list \<Rightarrow> string" where
  "join sep [] = []"
| "join sep [x] = x"
| "join sep (x # y # zs) = x @ sep @ join sep (y # zs)"

definition generateExplanation :: "'a scored_scheme \<Rightarrow> string" where
  "generateExplanation analysis =
     (let es = explanations (factors analysis)
      in if length es > 0 then join '', '' es else ''General similarity detected'')"

section \<open>DuplicateDetectionService\<close>

record duplicate = scored +
  event :: event
  confidence :: confidence

record summary =
  totalChecked :: nat
  threshold :: real
  highConfidenceDuplicates :: nat
  mediumConfidenceDuplicates :: nat

record result =
  isDuplicate :: bool
  duplicates :: "duplicate list"
  suggestions :: "duplicate list"
  analysis :: summary

record options =
  opt_threshold :: "real option"
  opt_limit :: "nat option"
  opt_excludeEventId :: "string option"

text \<open>
  The event store behind \<^verbatim>\<open>Event.find\<close> and \<^verbatim>\<open>Event.create\<close>: its documents as a
  query returns them (after \<^verbatim>\<open>populate\<close> and \<^verbatim>\<open>lean\<close>), and whether a query and a
  write succeed (an outage makes the call reject).
\<close>

record store =
  docs :: "event list"
  find_ok :: bool
  write_ok :: bool

record query =
  q_status :: "string list"
  q_category :: string
  q_gte :: int
  q_lte :: int
  q_ne :: "string option"

definition buildQuery :: "event \<Rightarrow> string option \<Rightarrow> query" where
  "buildQuery newEvent excludeEventId =
     \<lparr> q_status = [''draft'', ''published''],
       q_category = category newEvent,
       q_gte = start newEvent - int dateProximityDays * 24 * 60 * 60 * 1000,
       q_lte = start newEvent + int dateProximityDays * 24 * 60 * 60 * 1000,
       q_ne = (case excludeEventId of
                 None \<Rightarrow> None
               | Some i \<Rightarrow> if i = [] then None else Some i) \<rparr>"

definition matches :: "query \<Rightarrow> event \<Rightarrow> bool" where
  "matches q e =
     (status e \<in> set (q_status q) \<and> category e = q_category q \<and>
      q_gte q \<le> start e \<and> start e \<le> q_lte q \<and>
      (case q_ne q of None \<Rightarrow> True | Some i \<Rightarrow> ident e \<noteq> i))"

text \<open>\<^verbatim>\<open>Event.find(query).limit(limit)\<close>; a limit of 0 is no limit.\<close>

definition Event_find :: "store \<Rightarrow> query \<Rightarrow> nat \<Rightarrow> js_error + event list" where
  "Event_find st q maxDocs =
     (if \<not> find_ok st then Inl StoreError
      else let found = filter (matches q) (docs st)
           in Inr (if maxDocs = 0 then found else take maxDocs found))"

definition mkDuplicate :: "event \<Rightarrow> scored \<Rightarrow> duplicate" where
  "mkDuplicate existingEvent a =
     \<lparr> probability = probability a, factors = factors a,
       event = existingEvent, confidence = getConfidenceLevel (probability a) \<rparr>"

text \<open>
  The scoring loop over \<^verbatim>\<open>existingEvents\<close>, with the two arrays as state; an exception
  of \<^verbatim>\<open>calculateDuplicateProbability\<close> leaves the loop.
\<close>

fun scoreLoop :: "event \<Rightarrow> real \<Rightarrow> event list \<Rightarrow> duplicate list \<times> duplicate list
    \<Rightarrow> js_error + duplicate list \<times> duplicate list" where
  "scoreLoop newEvent thr [] (dups, suggs) = Inr (dups, suggs)"
| "scoreLoop newEvent thr (existingEvent # rest) (dups, suggs) =
     (case calculateDuplicateProbability newEvent existingEvent of
        Inl e \<Rightarrow> Inl e
      | Inr a \<Rightarrow>
          if probability a \<ge> thr
          then scoreLoop newEvent thr rest (dups @ [mkDuplicate existingEvent a], suggs)
          else if probability a \<ge> 0.5
          then scoreLoop newEvent thr rest (dups, suggs @ [mkDuplicate existingEvent a])
          else scoreLoop newEvent thr rest (dups, suggs))"

text \<open>\<^verbatim>\<open>xs.sort((a, b) => b.probability - a.probability)\<close>: stable, highest first.\<close>

definition sortByProbability :: "duplicate list \<Rightarrow> duplicate list" where
  "sortByProbability xs = sort_key (\<lambda>d. - probability d) xs"

text \<open>The defaults of the destructured \<^verbatim>\<open>options\<close>.\<close>

definition thresholdOf :: "options \<Rightarrow> real" where
  "thresholdOf opts = (case opt_threshold opts of None \<Rightarrow> similarityThreshold | Some t \<Rightarrow> t)"

definition limitOf :: "options \<Rightarrow> nat" where
  "limitOf opts = (case opt_limit opts of None \<Rightarrow> 50 | Some l \<Rightarrow> l)"

text \<open>
  \<^verbatim>\<open>checkForDuplicates\<close>: whatever is thrown inside the \<^verbatim>\<open>try\<close> block is caught,
  logged and replaced by one error.
\<close>

definition checkForDuplicates :: "store \<Rightarrow> event \<Rightarrow> options \<Rightarrow> js_error + result" where
  "checkForDuplicates st newEvent opts =
     (let thr = thresholdOf opts;
          q = buildQuery newEvent (opt_excludeEventId opts)
      in case Event_find st q (limitOf opts) of
           Inl e \<Rightarrow> Inl (Error ''Failed to check for duplicate events'')
         | Inr existingEvents \<Rightarrow>
             (case scoreLoop newEvent thr existingEvents ([], []) of
                Inl e \<Rightarrow> Inl (Error ''Failed to check for duplicate events'')
              | Inr (dups, suggs) \<Rightarrow>
                  let sortedDups = sortByProbability dups;
                      sortedSuggs = sortByProbability suggs
                  in Inr \<lparr> isDuplicate = (length sortedDups > 0),
                           duplicates = take 5 sortedDups,
                           suggestions = take 3 sortedSuggs,
                           analysis =
                             \<lparr> totalChecked = length existingEvents,
                               threshold = thr,
                               highConfidenceDuplicates =
                                 length (filter (\<lambda>d. confidence d = HIGH) sortedDups),
                               mediumConfidenceDuplicates =
                                 length (filter (\<lambda>d. confidence d = MEDIUM) sortedDups) \<rparr> \<rparr>))"

section \<open>The creation route\<close>

text \<open>
  \<^verbatim>\<open>router.post('/')\<close> of the events router. The request carries what the handler
  reads: the validation errors collected by the validator chain, the body
  (\<open>skipDuplicateCheck\<close> is the truthiness of the body's field), and the authenticated
  user's id. \<open>now\<close> is the clock, \<open>newId\<close> the id the store gives the
  created document.
\<close>

record body =
  b_title :: string
  b_description :: string
  b_category :: string
  b_venue :: venue
  b_start :: int
  b_end :: int
  skipDuplicateCheck :: bool

record request =
  validationErrors :: "string list"
  body :: body
  userId :: string

record response =
  statusCode :: nat
  success :: bool
  message :: string
  code :: "string option"
  explained :: "(duplicate \<times> string) list"

definition reply :: "nat \<Rightarrow> bool \<Rightarrow> string \<Rightarrow> response" where
  "reply sc ok msg = \<lparr> statusCode = sc, success = ok, message = msg, code = None, explained = [] \<rparr>"

definition eventOfBody :: "string \<Rightarrow> string \<Rightarrow> request \<Rightarrow> event" where
  "eventOfBody i st req =
     \<lparr> ident = i, status = st, title = b_title (body req),
       description = b_description (body req), category = b_category (body req),
       venue = b_venue (body req), start = b_start (body req),
       organizer = Some (userId req) \<rparr>"

text \<open>
  \<^verbatim>\<open>Event.create(eventData)\<close> with the two updates that follow it; the schema's
  default status is \<^verbatim>\<open>draft\<close>.
\<close>

definition Event_create :: "store \<Rightarrow> event \<Rightarrow> js_error + store" where
  "Event_create st e =
     (if \<not> write_ok st then Inl StoreError else Inr (st\<lparr> docs := docs st @ [e] \<rparr>))"

definition createAndRespond :: "string \<Rightarrow> request \<Rightarrow> store \<Rightarrow> response \<times> store" where
  "createAndRespond newId req st =
     (case Event_create st (eventOfBody newId ''draft'' req) of
        Inl e \<Rightarrow> (reply 500 False ''Server error creating event'', st)
      | Inr st' \<Rightarrow> (reply 201 True ''Event created successfully'', st'))"

definition createEvent :: "int \<Rightarrow> string \<Rightarrow> request \<Rightarrow> store \<Rightarrow> response \<times> store" where
  "createEvent now newId req st =
     (if validationErrors req \<noteq> [] then (reply 400 False ''Validation failed'', st)
      else if b_start (body req) \<le> now
      then (reply 400 False ''Event start date must be in the future'', st)
      else if b_end (body req) \<le> b_start (body req)
      then (reply 400 False ''Event end date must be after start date'', st)
      else if \<not> skipDuplicateCheck (body req)
      then (case checkForDuplicates st (eventOfBody [] [] req)
                   \<lparr> opt_threshold = Some 0.8, opt_limit = None, opt_excludeEventId = None \<rparr> of
              Inl e \<Rightarrow> (reply 500 False ''Server error creating event'', st)
            | Inr duplicateAnalysis \<Rightarrow>
                let veryHighConfidenceDuplicates =
                      filter (\<lambda>d. confidence d = VERY_HIGH) (duplicates duplicateAnalysis)
                in if length veryHighConfidenceDuplicates > 0
                   then (\<lparr> statusCode = 409, success = False,
                           message = ''A very similar event already exists. Please review the existing event or modify your event details.'',
                           code = Some ''DUPLICATE_DETECTED'',
                           explained = map (\<lambda>d. (d, generateExplanation d))
                                           veryHighConfidenceDuplicates \<rparr>, st)
                   else createAndRespond newId req st)
      else createAndRespond newId req st)"

section \<open>The buckets as the specification words them\<close>

text \<open>
  The duplicates bucket holds, in pool order, the scored events with probability at
  least the threshold; the suggestions bucket those with probability at least 0.5 and
  below the threshold. \<open>scoresOf\<close> is the score of a pair that can be scored.
\<close>

definition scoresOf :: "event \<Rightarrow> event \<Rightarrow> scored list" where
  "scoresOf newEvent e = (case calculateDuplicateProbability newEvent e of Inl x \<Rightarrow> [] | Inr a \<Rightarrow> [a])"

definition spec_duplicatesBucket :: "event \<Rightarrow> real \<Rightarrow> event list \<Rightarrow> duplicate list" where
  "spec_duplicatesBucket newEvent thr pool =
     concat (map (\<lambda>e. map (mkDuplicate e) (filter (\<lambda>a. probability a \<ge> thr) (scoresOf newEvent e))) pool)"

definition spec_suggestionsBucket :: "event \<Rightarrow> real \<Rightarrow> event list \<Rightarrow> duplicate list" where
  "spec_suggestionsBucket newEvent thr pool =
     concat (map (\<lambda>e. map (mkDuplicate e)
        (filter (\<lambda>a. probability a < thr \<and> probability a \<ge> 0.5) (scoresOf newEvent e))) pool)"

text \<open>The score of a pair that can be scored, as a function of the stored event.\<close>

definition scoreFor :: "event \<Rightarrow> event \<Rightarrow> scored" where
  "scoreFor newEvent e = projr (calculateDuplicateProbability newEvent e)"

section \<open>Example data\<close>

text \<open>
  The events of the end-to-end scenario: neither venue carries coordinates or an
  address, the stored title ends in an exclamation mark.
\<close>

definition techAuditorium :: venue where
  "techAuditorium = \<lparr> name = ''Tech Auditorium'', address = None, coordinates = None \<rparr>"

definition scenarioCandidate :: "int \<Rightarrow> string \<Rightarrow> event" where
  "scenarioCandidate D org =
     \<lparr> ident = [], status = [], title = ''AI Workshop 2024'',
       description = ''Learn about AI and ML for 2 hours'', category = ''technology'',
       venue = techAuditorium, start = D, organizer = Some org \<rparr>"

definition scenarioStored :: "int \<Rightarrow> string \<Rightarrow> event" where
  "scenarioStored D org =
     \<lparr> ident = ''e1'', status = ''published'', title = ''AI Workshop 2024!'',
       description = ''Learn about AI and ML for 2 hours'', category = ''technology'',
       venue = techAuditorium, start = D, organizer = Some org \<rparr>"

text \<open>A stored record whose organizer reference no longer resolves.\<close>

definition orphanStored :: "int \<Rightarrow> event" where
  "orphanStored D = (scenarioStored D [])\<lparr> ident := ''e0'', organizer := None \<rparr>"

text \<open>A venue with coordinates and an address.\<close>

definition mainHall :: venue where
  "mainHall = \<lparr> name = ''Main Hall'',
                address = Some \<lparr> street = Some ''12 College Road'', city = Some ''Pune'' \<rparr>,
                coordinates = Some \<lparr> latitude = Some 18, longitude = Some 73 \<rparr> \<rparr>"

text \<open>An event whose texts have no word longer than two characters.\<close>

definition shortWordsEvent :: event where
  "shortWordsEvent =
     \<lparr> ident = [], status = [], title = ''AI at IT'',
       description = ''We do AI at 5 pm on 1 of 12 in B2'', category = ''technology'',
       venue = \<lparr> name = ''B2'', address = None, coordinates = None \<rparr>, start = 0,
       organizer = Some ''u1'' \<rparr>"

text \<open>An event at a venue with coordinates and an address.\<close>

definition mainHallEvent :: event where
  "mainHallEvent = (scenarioCandidate 0 ''u1'')\<lparr> venue := mainHall \<rparr>"

text \<open>The factors of the scenario's pair when both events have the same organizer.\<close>

definition scenarioFactors :: factors where
  "scenarioFactors =
     \<lparr> titleSimilarity = 11 / 15, descriptionSimilarity = 1, dateProximity = 1,
       venueProximity = 1 / 2, categoryMatch = 1, organizerMatch = 1 \<rparr>"

definition defaultOptions :: options where
  "defaultOptions = \<lparr> opt_threshold = None, opt_limit = None, opt_excludeEventId = None \<rparr>"

definition halfOptions :: options where
  "halfOptions = \<lparr> opt_threshold = Some 0.5, opt_limit = None, opt_excludeEventId = None \<rparr>"

text \<open>A second stored event, by another organizer.\<close>

definition secondStored :: event where
  "secondStored = (scenarioStored 0 ''u2'')\<lparr> ident := ''e2'' \<rparr>"

definition exampleStore :: store where
  "exampleStore = \<lparr> docs = [secondStored, scenarioStored 0 ''u1''], find_ok = True, write_ok = True \<rparr>"

text \<open>A store holding the record without organizer, and a store whose queries fail.\<close>

definition orphanStore :: store where
  "orphanStore = \<lparr> docs = [orphanStored 0, scenarioStored 0 ''u1''], find_ok = True, write_ok = True \<rparr>"

definition outageStore :: store where
  "outageStore = \<lparr> docs = [scenarioStored 0 ''u1''], find_ok = False, write_ok = True \<rparr>"

definition scenarioRequest :: "bool \<Rightarrow> request" where
  "scenarioRequest skip =
     \<lparr> validationErrors = [],
       body = \<lparr> b_title = ''Robotics Meetup'', b_description = ''Build and race line following robots'',
                b_category = ''technology'', b_venue = techAuditorium,
                b_start = 1000, b_end = 2000, skipDuplicateCheck = skip \<rparr>,
       userId = ''u1'' \<rparr>"

text \<open>What the example store gives for the scenario's candidate at threshold 0.8 and 0.5.\<close>

definition firstVerdict :: duplicate where
  "firstVerdict = mkDuplicate (scenarioStored 0 ''u1'')
                    \<lparr> probability = 499 / 600, factors = scenarioFactors \<rparr>"

definition secondVerdict :: duplicate where
  "secondVerdict = mkDuplicate secondStored
                     \<lparr> probability = 469 / 600, factors = scenarioFactors\<lparr> organizerMatch := 0 \<rparr> \<rparr>"

definition exampleResult :: result where
  "exampleResult =
     \<lparr> isDuplicate = True, duplicates = [firstVerdict], suggestions = [secondVerdict],
       analysis = \<lparr> totalChecked = 2, threshold = 0.8, highConfidenceDuplicates = 1,
                    mediumConfidenceDuplicates = 0 \<rparr> \<rparr>"

definition exampleResultHalf :: result where
  "exampleResultHalf =
     \<lparr> isDuplicate = True, duplicates = [firstVerdict, secondVerdict], suggestions = [],
       analysis = \<lparr> totalChecked = 2, threshold = 0.5, highConfidenceDuplicates = 1,
                    mediumConfidenceDuplicates = 1 \<rparr> \<rparr>"

text \<open>
  A pool for ranking: the scenario's stored event \<open>k\<close> days later, by the candidate's
  organizer or by another, an unrelated event, and a cancelled one that the query
  leaves out. The threshold 0.7 is the one of the pre-submit check.
\<close>

definition storedAt :: "string \<Rightarrow> nat \<Rightarrow> string \<Rightarrow> event" where
  "storedAt i k org = (scenarioStored (int k * 86400000) org)\<lparr> ident := i \<rparr>"

definition chessNight :: event where
  "chessNight =
     \<lparr> ident = ''x1'', status = ''published'', title = ''Chess Night'',
       description = ''Bring a board'', category = ''technology'',
       venue = \<lparr> name = ''Library'', address = None, coordinates = None \<rparr>,
       start = 7 * 86400000, organizer = Some ''u3'' \<rparr>"

definition advisoryOptions :: options where
  "advisoryOptions = \<lparr> opt_threshold = Some 0.7, opt_limit = None, opt_excludeEventId = None \<rparr>"

definition rankingPool :: "event list" where
  "rankingPool =
     [storedAt ''s5'' 5 ''u2'', storedAt ''d3'' 3 ''u1'', storedAt ''d6'' 6 ''u1'',
      storedAt ''s7'' 7 ''u2'', chessNight, storedAt ''d0'' 0 ''u1'', storedAt ''s4'' 4 ''u2'',
      storedAt ''d5'' 5 ''u1'', storedAt ''d1'' 1 ''u1'', storedAt ''s6'' 6 ''u2'',
      storedAt ''d4'' 4 ''u1'', storedAt ''d2'' 2 ''u1'']"

definition rankingStore :: store where
  "rankingStore =
     \<lparr> docs = (storedAt ''c1'' 0 ''u1'')\<lparr> status := ''cancelled'' \<rparr> # rankingPool,
       find_ok = True, write_ok = True \<rparr>"

lemmas string_ops =
  normalize_def stripNonWord_def trim_def toLowerCase_def toLowerChar_def isSpace_def
  isWordChar_def wordSet_def newSet_def setAdd_def splitWs_def

lemmas scorer_defs =
  calculateCombinedSimilarity_def calculateTextSimilarity_def calculateJaccardSimilarity_def
  calculateDateProximity_def dateProximityDays_def calculateVenueProximity_def
  geoProximity_def addressSimilarity_def addressText_def template_def venueProximityKm_def

lemmas weights =
  weight_title_def weight_description_def weight_date_def weight_venue_def
  weight_category_def weight_organizer_def

section \<open>The rows are the rows of the matrix\<close>

lemma fillRow_matrix:
  "j \<le> length str2 \<Longrightarrow>
   fillRow (str1 ! i) (drop j str2) (map (matrix str1 str2 i) [j ..< Suc (length str2)])
     (matrix str1 str2 (Suc i) j) =
   map (matrix str1 str2 (Suc i)) [Suc j ..< Suc (length str2)]"
proof (induction "length str2 - j" arbitrary: j)
  case 0
  then have "j = length str2" by simp
  then show ?case by simp
next
  case (Suc n)
  then have lt: "j < length str2" by simp
  then have dr: "drop j str2 = str2 ! j # drop (Suc j) str2" by (simp add: Cons_nth_drop_Suc)
  have u1: "[j ..< Suc (length str2)] = j # Suc j # [Suc (Suc j) ..< Suc (length str2)]"
    using lt by (simp add: upt_conv_Cons)
  have u2: "[Suc j ..< Suc (length str2)] = Suc j # [Suc (Suc j) ..< Suc (length str2)]"
    using lt by (simp add: upt_conv_Cons)
  have n: "n = length str2 - Suc j" using Suc.hyps(2) by simp
  have le: "Suc j \<le> length str2" using lt by simp
  from Suc.hyps(1)[OF n le]
  have ih: "fillRow (str1 ! i) (drop (Suc j) str2)
      (map (matrix str1 str2 i) (Suc j # [Suc (Suc j) ..< Suc (length str2)]))
      (matrix str1 str2 (Suc i) (Suc j)) =
      map (matrix str1 str2 (Suc i)) [Suc (Suc j) ..< Suc (length str2)]"
    by (simp only: u2)
  show ?case
    unfolding dr u1 u2 using ih by (simp add: Let_def)
qed

lemma fillMatrix_matrix:
  "i \<le> length str1 \<Longrightarrow>
   fillMatrix (Suc i) (drop i str1) str2 (map (matrix str1 str2 i) [0 ..< Suc (length str2)]) =
   map (matrix str1 str2 (length str1)) [0 ..< Suc (length str2)]"
proof (induction "length str1 - i" arbitrary: i)
  case 0
  then show ?case by simp
next
  case (Suc n)
  then have lt: "i < length str1" by simp
  then have dr: "drop i str1 = str1 ! i # drop (Suc i) str1" by (simp add: Cons_nth_drop_Suc)
  have row: "Suc i # fillRow (str1 ! i) str2 (map (matrix str1 str2 i) [0 ..< Suc (length str2)]) (Suc i)
      = map (matrix str1 str2 (Suc i)) [0 ..< Suc (length str2)]"
    using fillRow_matrix[of 0 str2 str1 i] by (simp add: upt_conv_Cons del: upt_Suc)
  have n: "n = length str1 - Suc i" using Suc.hyps(2) by simp
  have le: "Suc i \<le> length str1" using lt by simp
  from Suc.hyps(1)[OF n le] show ?case
    unfolding dr by (simp only: fillMatrix.simps row)
qed

lemma levenshteinDistance_matrix:
  "levenshteinDistance str1 str2 = matrix str1 str2 (length str1) (length str2)"
proof -
  have r0: "map (matrix str1 str2 0) [0 ..< Suc (length str2)] = [0 ..< Suc (length str2)]"
    by (simp add: map_idI del: upt_Suc)
  from fillMatrix_matrix[of 0 str1 str2]
  have "fillMatrix 1 str1 str2 [0 ..< Suc (length str2)] =
      map (matrix str1 str2 (length str1)) [0 ..< Suc (length str2)]"
    by (simp only: r0 drop_0 One_nat_def le0)
  then show ?thesis by (simp add: levenshteinDistance_def)
qed

lemma levenshteinDistance_examples:
  "levenshteinDistance ''kitten'' ''sitting'' = 3"
  "levenshteinDistance [] ''abc'' = 3"
  "levenshteinDistance ''abc'' [] = 3"
  by (simp_all add: levenshteinDistance_def)

section \<open>Ranges of the similarity scores\<close>

lemma fillRow_length:
  "length prev = Suc (length ds) \<Longrightarrow> length (fillRow c ds prev left) = length ds"
proof (induction ds arbitrary: prev left)
  case Nil
  then show ?case by simp
next
  case (Cons d ds)
  then obtain diag up rest where p: "prev = diag # up # rest"
    by (cases prev; cases "tl prev") auto
  with Cons show ?case by (simp add: Let_def)
qed

lemma fillRow_bound:
  "length prev = Suc (length ds) \<Longrightarrow> (\<forall>k < length prev. prev ! k \<le> max i (j + k)) \<Longrightarrow>
   k < length ds \<Longrightarrow> fillRow c ds prev left ! k \<le> max (Suc i) (Suc (j + k))"
proof (induction ds arbitrary: prev left j k)
  case Nil
  then show ?case by simp
next
  case (Cons d ds)
  then obtain diag up rest where p: "prev = diag # up # rest"
    by (cases prev; cases "tl prev") auto
  have d0: "diag \<le> max i j" using Cons.prems(2) p by force
  show ?case
  proof (cases k)
    case 0
    with p d0 show ?thesis by (auto simp: Let_def)
  next
    case (Suc k')
    have len: "length (up # rest) = Suc (length ds)" using Cons.prems(1) p by simp
    have inv: "\<forall>m < length (up # rest). (up # rest) ! m \<le> max i (Suc j + m)"
    proof (intro allI impI)
      fix m assume "m < length (up # rest)"
      then have "Suc m < length prev" using p by simp
      then have "prev ! Suc m \<le> max i (j + Suc m)" using Cons.prems(2) by blast
      then show "(up # rest) ! m \<le> max i (Suc j + m)" using p by simp
    qed
    have "k' < length ds" using Cons.prems(3) Suc by simp
    from Cons.IH[OF len inv this]
    show ?thesis using p Suc by (simp add: Let_def)
  qed
qed

lemma fillMatrix_inv:
  "length prev = Suc (length str2) \<Longrightarrow> (\<forall>k < length prev. prev ! k \<le> max i k) \<Longrightarrow>
   length (fillMatrix (Suc i) str1 str2 prev) = Suc (length str2) \<and>
   (\<forall>k < Suc (length str2). fillMatrix (Suc i) str1 str2 prev ! k \<le> max (i + length str1) k)"
proof (induction str1 arbitrary: prev i)
  case Nil
  then show ?case by simp
next
  case (Cons c cs)
  let ?row = "Suc i # fillRow c str2 prev (Suc i)"
  have len: "length ?row = Suc (length str2)"
    using Cons.prems(1) by (simp add: fillRow_length)
  have inv: "\<forall>k < length ?row. ?row ! k \<le> max (Suc i) k"
  proof (intro allI impI)
    fix k assume k: "k < length ?row"
    show "?row ! k \<le> max (Suc i) k"
    proof (cases k)
      case 0
      then show ?thesis by simp
    next
      case (Suc k')
      then have "k' < length str2" using k len by simp
      from fillRow_bound[OF Cons.prems(1) _ this, of i 0 c "Suc i"] Cons.prems(2)
      show ?thesis using Suc by simp
    qed
  qed
  from Cons.IH[OF len inv] show ?case by simp
qed

lemma levenshteinDistance_le_max:
  "levenshteinDistance str1 str2 \<le> max (length str1) (length str2)"
proof -
  let ?row0 = "[0 ..< Suc (length str2)]"
  have len0: "length ?row0 = Suc (length str2)" by simp
  have inv0: "\<forall>k < length ?row0. ?row0 ! k \<le> max 0 k"
    by (metis add_0 len0 max_0L nth_upt order_refl length_upt)
  let ?m = "fillMatrix (Suc 0) str1 str2 ?row0"
  from fillMatrix_inv[OF len0 inv0, of str1]
  have l: "length ?m = Suc (length str2)"
    and b: "\<forall>k < Suc (length str2). ?m ! k \<le> max (length str1) k" by simp_all
  from l have "?m \<noteq> []" by auto
  then have "last ?m = ?m ! length str2" using l by (simp add: last_conv_nth)
  with b show ?thesis by (simp add: levenshteinDistance_def)
qed

lemma calculateTextSimilarity_range:
  "0 \<le> calculateTextSimilarity a b \<and> calculateTextSimilarity a b \<le> 1"
proof (cases "a = [] \<or> b = [] \<or> normalize a = normalize b")
  case True
  then show ?thesis by (auto simp: calculateTextSimilarity_def)
next
  case False
  let ?n1 = "normalize a" and ?n2 = "normalize b"
  let ?m = "max (length ?n1) (length ?n2)"
  from False have pos: "0 < ?m" by (cases ?n1; cases ?n2) auto
  have "real (levenshteinDistance ?n1 ?n2) \<le> real ?m"
    using levenshteinDistance_le_max[of ?n1 ?n2] by (simp only: of_nat_le_iff)
  with pos have "real (levenshteinDistance ?n1 ?n2) / real ?m \<le> 1"
    by (simp add: divide_le_eq_1)
  moreover have "0 \<le> real (levenshteinDistance ?n1 ?n2) / real ?m" by simp
  moreover have "calculateTextSimilarity a b = 1 - real (levenshteinDistance ?n1 ?n2) / real ?m"
    using False pos by (simp add: calculateTextSimilarity_def Let_def)
  ultimately show ?thesis by linarith
qed

lemma set_foldl_setAdd: "set (foldl setAdd acc xs) = set acc \<union> set xs"
  by (induction xs arbitrary: acc) (auto simp: setAdd_def)

lemma distinct_foldl_setAdd: "distinct acc \<Longrightarrow> distinct (foldl setAdd acc xs)"
  by (induction xs arbitrary: acc) (auto simp: setAdd_def)

lemma set_newSet: "set (newSet xs) = set xs"
  by (simp add: newSet_def set_foldl_setAdd)

lemma length_newSet: "length (newSet xs) = card (set xs)"
proof -
  have "distinct (newSet xs)" by (simp add: newSet_def distinct_foldl_setAdd)
  then show ?thesis by (metis distinct_card set_newSet)
qed

lemma calculateJaccardSimilarity_range:
  "0 \<le> calculateJaccardSimilarity a b \<and> calculateJaccardSimilarity a b \<le> 1"
proof -
  let ?w1 = "wordSet a" and ?w2 = "wordSet b"
  let ?i = "newSet (filter (\<lambda>word. word \<in> set ?w2) ?w1)"
  let ?u = "newSet (?w1 @ ?w2)"
  have "card (set (filter (\<lambda>word. word \<in> set ?w2) ?w1)) \<le> card (set (?w1 @ ?w2))"
    by (rule card_mono) auto
  then have "length ?i \<le> length ?u" by (simp only: length_newSet)
  then have "real (length ?i) \<le> real (length ?u)" by (simp only: of_nat_le_iff)
  then have "length ?u \<noteq> 0 \<Longrightarrow> real (length ?i) / real (length ?u) \<le> 1"
    by (simp add: divide_le_eq_1)
  moreover have "0 \<le> real (length ?i) / real (length ?u)" by simp
  ultimately show ?thesis
    unfolding calculateJaccardSimilarity_def Let_def by auto
qed

lemma calculateCombinedSimilarity_range:
  "0 \<le> calculateCombinedSimilarity a b \<and> calculateCombinedSimilarity a b \<le> 1"
  using calculateTextSimilarity_range[of a b] calculateJaccardSimilarity_range[of a b]
  unfolding calculateCombinedSimilarity_def Let_def by argo

lemma calculateDateProximity_range:
  "0 \<le> calculateDateProximity t1 t2 \<and> calculateDateProximity t1 t2 \<le> 1"
proof -
  let ?d = "\<lceil>real_of_int \<bar>t1 - t2\<bar> / (1000 * 60 * 60 * 24)\<rceil>"
  have nn: "0 \<le> ?d" by (simp add: ceiling_le_iff[symmetric] le_ceiling_iff)
  have "?d \<le> 7 \<Longrightarrow> real_of_int ?d / 7 \<le> 1" by simp
  with nn show ?thesis
    unfolding calculateDateProximity_def Let_def dateProximityDays_def by auto
qed

lemma atan2_nonneg: "0 \<le> y \<Longrightarrow> 0 \<le> x \<Longrightarrow> 0 \<le> atan2 y x"
  by (auto simp: atan2_def zero_le_arctan_iff)

lemma calculateDistance_nonneg: "calculateDistance a b c d = Some x \<Longrightarrow> 0 \<le> x"
  by (auto simp: calculateDistance_def Let_def atan2_nonneg split: if_splits)

lemma geoProximity_range: "0 \<le> geoProximity v1 v2 \<and> geoProximity v1 v2 \<le> 1"
  by (auto simp: geoProximity_def venueProximityKm_def split: option.splits dest: calculateDistance_nonneg)

lemma addressSimilarity_range: "0 \<le> addressSimilarity v1 v2 \<and> addressSimilarity v1 v2 \<le> 1"
  using calculateCombinedSimilarity_range
  by (auto simp: addressSimilarity_def split: option.splits)

lemma calculateVenueProximity_range:
  "0 \<le> calculateVenueProximity v1 v2 \<and> calculateVenueProximity v1 v2 \<le> 1"
  using calculateCombinedSimilarity_range[of "name v1" "name v2"] geoProximity_range[of v1 v2]
    addressSimilarity_range[of v1 v2]
  unfolding calculateVenueProximity_def Let_def by argo

section \<open>A text compared with itself\<close>

lemma calculateTextSimilarity_self: "s \<noteq> [] \<Longrightarrow> calculateTextSimilarity s s = 1"
  by (simp add: calculateTextSimilarity_def)

lemma wordSet_Nil: "wordSet [] = []"
  by (simp add: string_ops)

lemma newSet_eq_Nil: "newSet xs = [] \<longleftrightarrow> xs = []"
proof -
  have "length (newSet xs) = 0 \<longleftrightarrow> card (set xs) = 0" by (simp only: length_newSet)
  then show ?thesis by simp
qed

lemma calculateJaccardSimilarity_self:
  "wordSet s \<noteq> [] \<Longrightarrow> calculateJaccardSimilarity s s = 1"
proof -
  assume w: "wordSet s \<noteq> []"
  then have ne: "s \<noteq> []" using wordSet_Nil by auto
  have pos: "card (set (wordSet s)) \<noteq> 0" using w by simp
  show ?thesis
    using ne w pos by (simp add: calculateJaccardSimilarity_def Let_def newSet_eq_Nil length_newSet)
qed

lemma calculateJaccardSimilarity_no_words:
  "wordSet s = [] \<Longrightarrow> calculateJaccardSimilarity s s = 0"
  by (simp add: calculateJaccardSimilarity_def Let_def newSet_def)

lemma calculateCombinedSimilarity_self:
  "calculateCombinedSimilarity s s = (if s = [] then 0 else if wordSet s = [] then 3 / 5 else 1)"
proof (cases "s = []")
  case True
  then show ?thesis
    by (simp add: calculateCombinedSimilarity_def calculateTextSimilarity_def calculateJaccardSimilarity_def)
next
  case False
  then show ?thesis
    by (cases "wordSet s = []")
       (simp_all add: calculateCombinedSimilarity_def calculateTextSimilarity_self
          calculateJaccardSimilarity_self calculateJaccardSimilarity_no_words)
qed

section \<open>The scoring loop\<close>

lemma scoreLoop_buckets:
  "scoreLoop newEvent thr pool (d0, s0) = Inr (d, s) \<Longrightarrow>
   d = d0 @ spec_duplicatesBucket newEvent thr pool \<and> s = s0 @ spec_suggestionsBucket newEvent thr pool"
proof (induction pool arbitrary: d0 s0)
  case Nil
  then show ?case by (simp add: spec_duplicatesBucket_def spec_suggestionsBucket_def)
next
  case (Cons e pool)
  then obtain a where a: "calculateDuplicateProbability newEvent e = Inr a"
    by (cases "calculateDuplicateProbability newEvent e") auto
  have sc: "scoresOf newEvent e = [a]" by (simp add: scoresOf_def a)
  have cd: "spec_duplicatesBucket newEvent thr (e # pool) =
      (if probability a \<ge> thr then [mkDuplicate e a] else []) @ spec_duplicatesBucket newEvent thr pool"
    by (simp add: spec_duplicatesBucket_def sc)
  have cs: "spec_suggestionsBucket newEvent thr (e # pool) =
      (if probability a < thr \<and> probability a \<ge> 0.5 then [mkDuplicate e a] else []) @
      spec_suggestionsBucket newEvent thr pool"
    by (simp add: spec_suggestionsBucket_def sc)
  show ?case
  proof (cases "probability a \<ge> thr")
    case True
    with Cons.prems a have "scoreLoop newEvent thr pool (d0 @ [mkDuplicate e a], s0) = Inr (d, s)"
      by simp
    from Cons.IH[OF this] True show ?thesis by (simp add: cd cs)
  next
    case False
    show ?thesis
    proof (cases "probability a \<ge> 0.5")
      case True
      with False Cons.prems a
      have "scoreLoop newEvent thr pool (d0, s0 @ [mkDuplicate e a]) = Inr (d, s)" by simp
      from Cons.IH[OF this] True False show ?thesis by (simp add: cd cs)
    next
      case F2: False
      with False Cons.prems a
      have "scoreLoop newEvent thr pool (d0, s0) = Inr (d, s)" by simp
      from Cons.IH[OF this] F2 False show ?thesis by (simp add: cd cs)
    qed
  qed
qed

lemma scoreLoop_total:
  "\<forall>e\<in>set pool. \<exists>a. calculateDuplicateProbability newEvent e = Inr a \<Longrightarrow>
   \<exists>d s. scoreLoop newEvent thr pool (d0, s0) = Inr (d, s)"
proof (induction pool arbitrary: d0 s0)
  case Nil
  then show ?case by simp
next
  case (Cons e pool)
  then obtain a where a: "calculateDuplicateProbability newEvent e = Inr a" by auto
  from Cons have ih: "\<And>d0 s0. \<exists>d s. scoreLoop newEvent thr pool (d0, s0) = Inr (d, s)" by simp
  show ?case using a ih by simp
qed

lemma scoreLoop_fails:
  "e \<in> set pool \<Longrightarrow> calculateDuplicateProbability newEvent e = Inl err \<Longrightarrow>
   \<exists>err'. scoreLoop newEvent thr pool (d0, s0) = Inl err'"
proof (induction pool arbitrary: d0 s0)
  case Nil
  then show ?case by simp
next
  case (Cons x pool)
  show ?case
  proof (cases "calculateDuplicateProbability newEvent x")
    case (Inl b)
    then show ?thesis by simp
  next
    case (Inr a)
    with Cons.prems have "e \<in> set pool" by auto
    from Cons.IH[OF this Cons.prems(2)] Inr show ?thesis by simp
  qed
qed

lemma calculateDuplicateProbability_returns:
  "organizer e1 = Some o1 \<Longrightarrow> organizer e2 = Some o2 \<Longrightarrow>
   \<exists>a. calculateDuplicateProbability e1 e2 = Inr a"
  by (simp add: calculateDuplicateProbability_def Let_def)

lemma set_scoresOf:
  "a \<in> set (scoresOf newEvent e) \<longleftrightarrow> calculateDuplicateProbability newEvent e = Inr a"
  by (cases "calculateDuplicateProbability newEvent e") (auto simp: scoresOf_def)

lemma mem_duplicatesBucket:
  "d \<in> set (spec_duplicatesBucket newEvent thr pool) \<longleftrightarrow>
   (\<exists>e\<in>set pool. \<exists>a. calculateDuplicateProbability newEvent e = Inr a \<and>
      probability a \<ge> thr \<and> d = mkDuplicate e a)"
  by (auto simp: spec_duplicatesBucket_def set_scoresOf)

lemma mem_suggestionsBucket:
  "d \<in> set (spec_suggestionsBucket newEvent thr pool) \<longleftrightarrow>
   (\<exists>e\<in>set pool. \<exists>a. calculateDuplicateProbability newEvent e = Inr a \<and>
      probability a < thr \<and> probability a \<ge> 0.5 \<and> d = mkDuplicate e a)"
  by (auto simp: spec_suggestionsBucket_def set_scoresOf)

lemma mkDuplicate_inject: "mkDuplicate e a = mkDuplicate e' a' \<longleftrightarrow> e = e' \<and> a = a'"
  by (cases a; cases a') (auto simp: mkDuplicate_def)

lemma sortByProbability_sorted:
  "sorted_wrt (\<lambda>x y. probability x \<ge> probability y) (sortByProbability xs)"
proof -
  have "sorted (map (\<lambda>d. - probability d) (sortByProbability xs))"
    by (simp add: sortByProbability_def)
  then show ?thesis by (simp add: sorted_map)
qed

lemma set_sortByProbability: "set (sortByProbability xs) = set xs"
  by (simp add: sortByProbability_def)

lemma spec_duplicatesBucket_scored:
  "\<forall>e\<in>set pool. calculateDuplicateProbability newEvent e = Inr (score e) \<Longrightarrow>
   spec_duplicatesBucket newEvent thr pool =
     map (\<lambda>e. mkDuplicate e (score e)) (filter (\<lambda>e. probability (score e) \<ge> thr) pool)"
  by (induction pool) (simp_all add: spec_duplicatesBucket_def scoresOf_def)

lemma spec_suggestionsBucket_scored:
  "\<forall>e\<in>set pool. calculateDuplicateProbability newEvent e = Inr (score e) \<Longrightarrow>
   spec_suggestionsBucket newEvent thr pool =
     map (\<lambda>e. mkDuplicate e (score e))
       (filter (\<lambda>e. 0.5 \<le> probability (score e) \<and> probability (score e) < thr) pool)"
  by (induction pool) (simp_all add: spec_suggestionsBucket_def scoresOf_def conj_commute)

lemma sorted_take_drop:
  "sorted_wrt (\<lambda>x y. f x \<ge> (f y :: real)) xs \<Longrightarrow>
   x \<in> set (take n xs) \<Longrightarrow> y \<in> set (drop n xs) \<Longrightarrow> f y \<le> f x"
  by (metis append_take_drop_id sorted_wrt_append)

lemma checkForDuplicates_cases:
  "checkForDuplicates st newEvent opts = Inr r \<Longrightarrow>
   \<exists>pool dups suggs.
     Event_find st (buildQuery newEvent (opt_excludeEventId opts)) (limitOf opts) = Inr pool \<and>
     scoreLoop newEvent (thresholdOf opts) pool ([], []) = Inr (dups, suggs) \<and>
     duplicates r = take 5 (sortByProbability dups) \<and>
     suggestions r = take 3 (sortByProbability suggs)"
  by (auto simp: checkForDuplicates_def Let_def split: sum.splits prod.splits)

section \<open>The examples evaluated\<close>

lemmas store_ops = Event_find_def buildQuery_def matches_def limitOf_def thresholdOf_def
  similarityThreshold_def dateProximityDays_def

lemmas example_events = scenarioCandidate_def scenarioStored_def orphanStored_def techAuditorium_def

lemma find_example:
  "Event_find exampleStore (buildQuery (scenarioCandidate 0 ''u1'') (opt_excludeEventId defaultOptions))
     (limitOf defaultOptions) = Inr [secondStored, scenarioStored 0 ''u1'']"
  by (simp add: store_ops exampleStore_def defaultOptions_def secondStored_def example_events)

lemma score_second:
  "calculateDuplicateProbability (scenarioCandidate 0 ''u1'') secondStored =
     Inr \<lparr> probability = 469 / 600, factors = scenarioFactors\<lparr> organizerMatch := 0 \<rparr> \<rparr>"
  by (simp add: calculateDuplicateProbability_def secondStored_def example_events
        scenarioFactors_def scorer_defs string_ops weights Let_def)

lemma score_first:
  "calculateDuplicateProbability (scenarioCandidate 0 ''u1'') (scenarioStored 0 ''u1'') =
     Inr \<lparr> probability = 499 / 600, factors = scenarioFactors \<rparr>"
  by (simp add: calculateDuplicateProbability_def example_events
        scenarioFactors_def scorer_defs string_ops weights Let_def)

lemma find_example_half:
  "Event_find exampleStore (buildQuery (scenarioCandidate 0 ''u1'') (opt_excludeEventId halfOptions))
     (limitOf halfOptions) = Inr [secondStored, scenarioStored 0 ''u1'']"
  by (simp add: store_ops exampleStore_def halfOptions_def secondStored_def example_events)

lemma find_orphan:
  "Event_find orphanStore (buildQuery (scenarioCandidate 0 ''u1'') (opt_excludeEventId defaultOptions))
     (limitOf defaultOptions) = Inr [orphanStored 0, scenarioStored 0 ''u1'']"
  by (simp add: store_ops orphanStore_def defaultOptions_def example_events)

lemma score_orphan:
  "calculateDuplicateProbability (scenarioCandidate 0 ''u1'') (orphanStored 0) = Inl TypeError"
  by (simp add: calculateDuplicateProbability_def example_events Let_def)

lemma check_example:
  "checkForDuplicates exampleStore (scenarioCandidate 0 ''u1'') defaultOptions = Inr exampleResult"
proof -
  have t: "thresholdOf defaultOptions = 0.8"
    by (simp add: thresholdOf_def defaultOptions_def similarityThreshold_def)
  show ?thesis
    by (simp add: checkForDuplicates_def Let_def find_example t score_first score_second
        sortByProbability_def exampleResult_def firstVerdict_def secondVerdict_def
        mkDuplicate_def getConfidenceLevel_def)
qed

lemma check_example_half:
  "checkForDuplicates exampleStore (scenarioCandidate 0 ''u1'') halfOptions = Inr exampleResultHalf"
proof -
  have t: "thresholdOf halfOptions = 0.5" by (simp add: thresholdOf_def halfOptions_def)
  show ?thesis
    by (simp add: checkForDuplicates_def Let_def find_example_half t score_first score_second
        sortByProbability_def exampleResultHalf_def firstVerdict_def secondVerdict_def
        mkDuplicate_def getConfidenceLevel_def)
qed

lemma date_days: "k \<le> 7 \<Longrightarrow> calculateDateProximity 0 (int k * 86400000) = 1 - real k / 7"
  by (simp add: calculateDateProximity_def dateProximityDays_def Let_def)

lemma score_storedAt:
  "k \<le> 7 \<Longrightarrow>
   calculateDuplicateProbability (scenarioCandidate 0 ''u1'') (storedAt i k org) =
     Inr \<lparr> probability = 469 / 600 - 3 / 140 * real k + (if org = ''u1'' then 1 / 20 else 0),
           factors = \<lparr> titleSimilarity = 11 / 15, descriptionSimilarity = 1,
                       dateProximity = 1 - real k / 7, venueProximity = 1 / 2,
                       categoryMatch = 1, organizerMatch = (if org = ''u1'' then 1 else 0) \<rparr> \<rparr>"
proof -
  assume k: "k \<le> 7"
  have t: "calculateCombinedSimilarity ''AI Workshop 2024'' ''AI Workshop 2024!'' = 11 / 15"
    by (simp add: scorer_defs string_ops)
  have d: "calculateCombinedSimilarity ''Learn about AI and ML for 2 hours''
      ''Learn about AI and ML for 2 hours'' = 1"
    by (simp add: calculateCombinedSimilarity_self string_ops)
  have v: "calculateVenueProximity techAuditorium techAuditorium = 1 / 2"
    by (simp add: techAuditorium_def calculateVenueProximity_def geoProximity_def
        addressSimilarity_def calculateCombinedSimilarity_self string_ops)
  have p: "11 / 15 * weight_title + weight_description + (1 - real k / 7) * weight_date +
      1 / 2 * weight_venue + weight_category + g * weight_organizer =
      469 / 600 - 3 / 140 * real k + g / 20" for g :: real
    by (simp add: weights field_simps)
  have "calculateDuplicateProbability (scenarioCandidate 0 ''u1'') (storedAt i k org) =
     Inr \<lparr> probability = 11 / 15 * weight_title + weight_description +
             (1 - real k / 7) * weight_date + 1 / 2 * weight_venue + weight_category +
             (if org = ''u1'' then 1 else 0) * weight_organizer,
           factors = \<lparr> titleSimilarity = 11 / 15, descriptionSimilarity = 1,
                       dateProximity = 1 - real k / 7, venueProximity = 1 / 2,
                       categoryMatch = 1, organizerMatch = (if org = ''u1'' then 1 else 0) \<rparr> \<rparr>"
    using k
    by (simp add: calculateDuplicateProbability_def storedAt_def scenarioCandidate_def
        scenarioStored_def t d v date_days Let_def)
  then show ?thesis by (simp only: p) simp
qed

lemma lev_title: "levenshteinDistance ''ai workshop 2024'' ''chess night'' = 15" by code_simp
lemma lev_description:
  "levenshteinDistance ''learn about ai and ml for 2 hours'' ''bring a board'' = 26" by code_simp
lemma lev_venue: "levenshteinDistance ''tech auditorium'' ''library'' = 13" by code_simp

lemma score_chessNight:
  "calculateDuplicateProbability (scenarioCandidate 0 ''u1'') chessNight =
     Inr \<lparr> probability = 12723 / 88000,
           factors = \<lparr> titleSimilarity = 3 / 80, descriptionSimilarity = 7 / 55,
                       dateProximity = 0, venueProximity = 1 / 25,
                       categoryMatch = 1, organizerMatch = 0 \<rparr> \<rparr>"
proof -
  have t: "calculateCombinedSimilarity ''AI Workshop 2024'' ''Chess Night'' = 3 / 80"
    by (simp add: scorer_defs string_ops lev_title)
  have d: "calculateCombinedSimilarity ''Learn about AI and ML for 2 hours'' ''Bring a board'' = 7 / 55"
    by (simp add: scorer_defs string_ops lev_description)
  have n: "calculateCombinedSimilarity ''Tech Auditorium'' ''Library'' = 2 / 25"
    by (simp add: scorer_defs string_ops lev_venue)
  have v: "calculateVenueProximity techAuditorium
      \<lparr> name = ''Library'', address = None, coordinates = None \<rparr> = 1 / 25"
    by (simp add: techAuditorium_def calculateVenueProximity_def geoProximity_def
        addressSimilarity_def n)
  have p: "calculateDateProximity 0 604800000 = 0"
    by (simp add: calculateDateProximity_def dateProximityDays_def Let_def)
  show ?thesis
    by (simp add: calculateDuplicateProbability_def chessNight_def scenarioCandidate_def
        t d v p weights Let_def)
qed


lemma find_ranking:
  "Event_find rankingStore
     (buildQuery (scenarioCandidate 0 ''u1'') (opt_excludeEventId advisoryOptions))
     (case opt_limit advisoryOptions of None \<Rightarrow> 50 | Some l \<Rightarrow> l) = Inr rankingPool"
  by (simp add: Event_find_def buildQuery_def matches_def dateProximityDays_def rankingStore_def
      rankingPool_def advisoryOptions_def storedAt_def chessNight_def scenarioCandidate_def
      scenarioStored_def)

lemma scoreFor_storedAt:
  "k \<le> 7 \<Longrightarrow>
   scoreFor (scenarioCandidate 0 ''u1'') (storedAt i k org) =
     \<lparr> probability = 469 / 600 - 3 / 140 * real k + (if org = ''u1'' then 1 / 20 else 0),
       factors = \<lparr> titleSimilarity = 11 / 15, descriptionSimilarity = 1,
                   dateProximity = 1 - real k / 7, venueProximity = 1 / 2,
                   categoryMatch = 1, organizerMatch = (if org = ''u1'' then 1 else 0) \<rparr> \<rparr>"
  by (simp add: scoreFor_def score_storedAt)

lemma scoreFor_chessNight:
  "scoreFor (scenarioCandidate 0 ''u1'') chessNight =
     \<lparr> probability = 12723 / 88000,
       factors = \<lparr> titleSimilarity = 3 / 80, descriptionSimilarity = 7 / 55,
                   dateProximity = 0, venueProximity = 1 / 25,
                   categoryMatch = 1, organizerMatch = 0 \<rparr> \<rparr>"
  by (simp add: scoreFor_def score_chessNight)

lemma scored_ranking:
  "\<forall>e\<in>set rankingPool.
     calculateDuplicateProbability (scenarioCandidate 0 ''u1'') e =
       Inr (scoreFor (scenarioCandidate 0 ''u1'') e)"
  by (simp add: rankingPool_def scoreFor_def score_storedAt score_chessNight)

lemma ident_storedAt: "ident (storedAt i k org) = i"
  by (simp add: storedAt_def)

section \<open>The creation route when the detector fails\<close>

lemma createEvent_detector_error:
  assumes "validationErrors req = []"
    and "now < b_start (body req)"
    and "b_start (body req) < b_end (body req)"
    and "\<not> skipDuplicateCheck (body req)"
    and "checkForDuplicates st (eventOfBody [] [] req)
           \<lparr> opt_threshold = Some 0.8, opt_limit = None, opt_excludeEventId = None \<rparr> = Inl err"
  shows "createEvent now newId req st = (reply 500 False ''Server error creating event'', st)"
  using assms by (simp add: createEvent_def)

section \<open>Claims\<close>

text \<open>
  C1, as amended. Two events with equal title, description and venue name, each with
  at least one word longer than two characters, the same start, category and organizer
  score 0.925 plus 0.045 times the geographic proximity plus 0.03 times the address
  similarity: at least 0.925, exactly 1 only when both of these are 1, and always
  \<open>VERY_HIGH\<close>.
\<close>

theorem identical_events_probability:
  assumes "title event1 = title event2"
    and "description event1 = description event2"
    and "name (venue event1) = name (venue event2)"
    and "start event1 = start event2"
    and "category event1 = category event2"
    and "organizer event1 = Some org"
    and "organizer event2 = Some org"
    and "wordSet (title event1) \<noteq> []"
    and "wordSet (description event1) \<noteq> []"
    and "wordSet (name (venue event1)) \<noteq> []"
  shows "\<exists>a. calculateDuplicateProbability event1 event2 = Inr a \<and>
    probability a = 37 / 40 + 9 / 200 * geoProximity (venue event1) (venue event2) +
                    3 / 100 * addressSimilarity (venue event1) (venue event2) \<and>
    37 / 40 \<le> probability a \<and> probability a \<le> 1 \<and>
    (probability a = 1 \<longleftrightarrow> geoProximity (venue event1) (venue event2) = 1 \<and>
                           addressSimilarity (venue event1) (venue event2) = 1) \<and>
    getConfidenceLevel (probability a) = VERY_HIGH"
proof -
  define g where "g = geoProximity (venue event1) (venue event2)"
  define s where "s = addressSimilarity (venue event1) (venue event2)"
  have rg: "0 \<le> g \<and> g \<le> 1" unfolding g_def by (rule geoProximity_range)
  have rs: "0 \<le> s \<and> s \<le> 1" unfolding s_def by (rule addressSimilarity_range)
  have t: "calculateCombinedSimilarity (title event1) (title event2) = 1"
    using assms(1,8) by (metis calculateCombinedSimilarity_self wordSet_Nil)
  have d: "calculateCombinedSimilarity (description event1) (description event2) = 1"
    using assms(2,9) by (metis calculateCombinedSimilarity_self wordSet_Nil)
  have n: "calculateCombinedSimilarity (name (venue event1)) (name (venue event2)) = 1"
    using assms(3,10) by (metis calculateCombinedSimilarity_self wordSet_Nil)
  have p: "calculateDateProximity (start event1) (start event2) = 1"
    using assms(4) by (simp add: calculateDateProximity_def)
  have v: "calculateVenueProximity (venue event1) (venue event2) = 1 / 2 + g * 0.3 + s * 0.2"
    by (simp add: calculateVenueProximity_def n g_def s_def)
  let ?a = "\<lparr> probability = 37 / 40 + 9 / 200 * g + 3 / 100 * s,
               factors = \<lparr> titleSimilarity = 1, descriptionSimilarity = 1, dateProximity = 1,
                           venueProximity = 1 / 2 + g * 0.3 + s * 0.2, categoryMatch = 1,
                           organizerMatch = 1 \<rparr> \<rparr>"
  have pr: "weight_title + weight_description + weight_date +
      (1 / 2 + g * 0.3 + s * 0.2) * weight_venue + weight_category + weight_organizer =
      37 / 40 + 9 / 200 * g + 3 / 100 * s"
    by (simp add: weights algebra_simps)
  have "calculateDuplicateProbability event1 event2 =
      Inr \<lparr> probability = weight_title + weight_description + weight_date +
              (1 / 2 + g * 0.3 + s * 0.2) * weight_venue + weight_category + weight_organizer,
            factors = \<lparr> titleSimilarity = 1, descriptionSimilarity = 1, dateProximity = 1,
                        venueProximity = 1 / 2 + g * 0.3 + s * 0.2, categoryMatch = 1,
                        organizerMatch = 1 \<rparr> \<rparr>"
    using assms(5,6,7) by (simp add: calculateDuplicateProbability_def Let_def t d p v)
  then have eq: "calculateDuplicateProbability event1 event2 = Inr ?a"
    by (simp only: pr)
  have lo: "37 / 40 \<le> probability ?a" using rg rs by simp
  have hi: "probability ?a \<le> 1" using rg rs by simp
  have one: "probability ?a = 1 \<longleftrightarrow> g = 1 \<and> s = 1" using rg rs by auto
  have cl: "getConfidenceLevel (probability ?a) = VERY_HIGH"
    using lo by (simp add: getConfidenceLevel_def)
  from eq lo hi one cl show ?thesis
    unfolding g_def[symmetric] s_def[symmetric] by (intro exI[of _ ?a]) simp
qed

lemma geoProximity_mainHall: "geoProximity mainHall mainHall = 1"
  by (simp add: mainHall_def geoProximity_def truthy_def calculateDistance_def toRadians_def
      atan2_def venueProximityKm_def)

theorem identical_events_probability_witness:
  "title mainHallEvent = title mainHallEvent \<and>
   organizer mainHallEvent = Some ''u1'' \<and>
   wordSet (title mainHallEvent) \<noteq> [] \<and>
   wordSet (description mainHallEvent) \<noteq> [] \<and>
   wordSet (name (venue mainHallEvent)) \<noteq> [] \<and>
   (\<exists>a. calculateDuplicateProbability mainHallEvent mainHallEvent = Inr a \<and>
        probability a = 1 \<and> getConfidenceLevel (probability a) = VERY_HIGH)"
proof -
  have o: "organizer mainHallEvent = Some ''u1''"
    by (simp add: mainHallEvent_def scenarioCandidate_def)
  have wt: "wordSet (title mainHallEvent) \<noteq> []"
    by (simp add: mainHallEvent_def scenarioCandidate_def string_ops)
  have wd: "wordSet (description mainHallEvent) \<noteq> []"
    by (simp add: mainHallEvent_def scenarioCandidate_def string_ops)
  have wn: "wordSet (name (venue mainHallEvent)) \<noteq> []"
    by (simp add: mainHallEvent_def mainHall_def string_ops)
  have v: "venue mainHallEvent = mainHall" by (simp add: mainHallEvent_def)
  have a: "addressSimilarity mainHall mainHall = 1"
    by (simp add: mainHall_def addressSimilarity_def addressText_def template_def
        calculateCombinedSimilarity_self string_ops)
  from identical_events_probability[OF refl refl refl refl refl o o wt wd wn]
  show ?thesis using o wt wd wn by (auto simp: v geoProximity_mainHall a)
qed

text \<open>
  C1 as stated fails: identical events whose venues carry neither coordinates nor an
  address score 0.925, and identical events without a word longer than two characters
  score 0.675, which is \<open>MEDIUM\<close>.
\<close>

theorem identical_events_counterexample:
  "calculateDuplicateProbability (scenarioCandidate 0 ''u1'') (scenarioCandidate 0 ''u1'') =
     Inr \<lparr> probability = 37 / 40,
           factors = \<lparr> titleSimilarity = 1, descriptionSimilarity = 1, dateProximity = 1,
                       venueProximity = 1 / 2, categoryMatch = 1, organizerMatch = 1 \<rparr> \<rparr> \<and>
   (37 / 40 :: real) \<noteq> 1 \<and>
   calculateDuplicateProbability shortWordsEvent shortWordsEvent =
     Inr \<lparr> probability = 27 / 40,
           factors = \<lparr> titleSimilarity = 3 / 5, descriptionSimilarity = 3 / 5, dateProximity = 1,
                       venueProximity = 3 / 10, categoryMatch = 1, organizerMatch = 1 \<rparr> \<rparr> \<and>
   getConfidenceLevel (27 / 40) = MEDIUM"
  by (simp add: calculateDuplicateProbability_def scenarioCandidate_def shortWordsEvent_def
      techAuditorium_def scorer_defs string_ops weights Let_def getConfidenceLevel_def)

text \<open>
  C2, as amended. For the scenario's pair with one organizer, whatever the start \<open>D\<close>:
  the title similarity is 11/15, the probability is 499/600 (below 0.95), the
  confidence is \<open>HIGH\<close>, and the explanation has the description, date, category and
  organizer clauses but no title clause.
\<close>

theorem scenario_probability:
  "calculateDuplicateProbability (scenarioCandidate D org) (scenarioStored D org) =
     Inr \<lparr> probability = 499 / 600, factors = scenarioFactors \<rparr> \<and>
   (499 / 600 :: real) < 0.95 \<and>
   getConfidenceLevel (499 / 600) = HIGH \<and>
   explanations scenarioFactors =
     [''Event descriptions are 100% similar'', ''Events are scheduled very close in time'',
      ''Events are in the same category'', ''Events have the same organizer''] \<and>
   generateExplanation
     (mkDuplicate (scenarioStored D org) \<lparr> probability = 499 / 600, factors = scenarioFactors \<rparr>) =
     ''Event descriptions are 100% similar, Events are scheduled very close in time, Events are in the same category, Events have the same organizer''"
proof -
  have eq: "calculateDuplicateProbability (scenarioCandidate D org) (scenarioStored D org) =
     Inr \<lparr> probability = 499 / 600, factors = scenarioFactors \<rparr>"
    by (simp add: calculateDuplicateProbability_def scenarioCandidate_def scenarioStored_def
        scenarioFactors_def techAuditorium_def scorer_defs string_ops weights Let_def)
  have ex: "explanations scenarioFactors =
     [''Event descriptions are 100% similar'', ''Events are scheduled very close in time'',
      ''Events are in the same category'', ''Events have the same organizer'']"
    by (simp add: explanations_def scenarioFactors_def descriptionClause_def showInt_def
        mathRound_def digits.simps)
  have ge: "generateExplanation
     (mkDuplicate (scenarioStored D org) \<lparr> probability = 499 / 600, factors = scenarioFactors \<rparr>) =
     ''Event descriptions are 100% similar, Events are scheduled very close in time, Events are in the same category, Events have the same organizer''"
    by (simp add: generateExplanation_def mkDuplicate_def ex)
  have cl: "getConfidenceLevel (499 / 600) = HIGH" by (simp add: getConfidenceLevel_def)
  show ?thesis using eq ex ge cl by simp
qed

text \<open>
  C2 as stated fails at \<open>D = 0\<close>: the probability is not at least 0.95, the confidence
  is not \<open>VERY_HIGH\<close>, and the title clause is not among the explanations.
\<close>

theorem scenario_counterexample:
  "calculateDuplicateProbability (scenarioCandidate 0 ''u1'') (scenarioStored 0 ''u1'') =
     Inr \<lparr> probability = 499 / 600, factors = scenarioFactors \<rparr> \<and>
   \<not> (0.95 \<le> (499 / 600 :: real)) \<and>
   getConfidenceLevel (499 / 600) \<noteq> VERY_HIGH \<and>
   titleClause (titleSimilarity scenarioFactors) \<notin> set (explanations scenarioFactors)"
  by (simp add: calculateDuplicateProbability_def scenarioCandidate_def scenarioStored_def
      scenarioFactors_def techAuditorium_def scorer_defs string_ops weights Let_def
      getConfidenceLevel_def explanations_def descriptionClause_def titleClause_def
      showInt_def mathRound_def digits.simps)

text \<open>
  C3. Let the store return \<open>pool\<close> for the query, and let every stored event of the
  pool be scored, \<open>score e\<close> being its score. With \<open>thr\<close> the threshold passed in the
  options (0.8 when none is passed), the loop puts the verdict of an event, which
  carries that event, its probability, its factors and the confidence of that
  probability, into the duplicates bucket exactly when the probability is at least
  \<open>thr\<close>, and into the suggestions bucket exactly when it is at least 0.5 and below
  \<open>thr\<close>, in pool order. \<open>checkForDuplicates\<close> returns the first 5 duplicates and the
  first 3 suggestions of the buckets sorted stably by descending probability: both
  lists are descending, nothing left out has a higher probability than anything
  returned, and \<open>isDuplicate\<close> says that the duplicates bucket is not empty.
\<close>

theorem checkForDuplicates_partition:
  assumes find: "Event_find st (buildQuery newEvent (opt_excludeEventId opts))
                   (case opt_limit opts of None \<Rightarrow> 50 | Some l \<Rightarrow> l) = Inr pool"
    and scored: "\<forall>e\<in>set pool. calculateDuplicateProbability newEvent e = Inr (score e)"
  shows "let thr = (case opt_threshold opts of None \<Rightarrow> 0.8 | Some t \<Rightarrow> t);
      verdict = (\<lambda>e. \<lparr> probability = probability (score e), factors = factors (score e),
                       event = e, confidence = getConfidenceLevel (probability (score e)) \<rparr>);
      dups = map verdict (filter (\<lambda>e. probability (score e) \<ge> thr) pool);
      suggs = map verdict
                (filter (\<lambda>e. 0.5 \<le> probability (score e) \<and> probability (score e) < thr) pool);
      sortedDups = sort_key (\<lambda>d. - probability d) dups;
      sortedSuggs = sort_key (\<lambda>d. - probability d) suggs
    in scoreLoop newEvent thr pool ([], []) = Inr (dups, suggs) \<and>
       checkForDuplicates st newEvent opts =
         Inr \<lparr> isDuplicate = (dups \<noteq> []),
               duplicates = take 5 sortedDups,
               suggestions = take 3 sortedSuggs,
               analysis = \<lparr> totalChecked = length pool, threshold = thr,
                 highConfidenceDuplicates = length (filter (\<lambda>d. confidence d = HIGH) dups),
                 mediumConfidenceDuplicates = length (filter (\<lambda>d. confidence d = MEDIUM) dups) \<rparr> \<rparr> \<and>
       (\<forall>e\<in>set pool.
          (verdict e \<in> set dups \<longleftrightarrow> probability (score e) \<ge> thr) \<and>
          (verdict e \<in> set suggs \<longleftrightarrow>
             0.5 \<le> probability (score e) \<and> probability (score e) < thr)) \<and>
       sorted_wrt (\<lambda>x y. probability x \<ge> probability y) (take 5 sortedDups) \<and>
       sorted_wrt (\<lambda>x y. probability x \<ge> probability y) (take 3 sortedSuggs) \<and>
       (\<forall>x\<in>set (take 5 sortedDups). \<forall>y\<in>set (drop 5 sortedDups).
          probability y \<le> probability x) \<and>
       (\<forall>x\<in>set (take 3 sortedSuggs). \<forall>y\<in>set (drop 3 sortedSuggs).
          probability y \<le> probability x) \<and>
       set sortedDups = set dups \<and> length sortedDups = length dups \<and>
       set sortedSuggs = set suggs \<and> length sortedSuggs = length suggs \<and>
       length (take 5 sortedDups) = min 5 (length dups) \<and>
       length (take 3 sortedSuggs) = min 3 (length suggs)"
proof -
  define thr where "thr = (case opt_threshold opts of None \<Rightarrow> 0.8 | Some t \<Rightarrow> t)"
  define verdict where "verdict = (\<lambda>e. \<lparr> probability = probability (score e),
      factors = factors (score e), event = e,
      confidence = getConfidenceLevel (probability (score e)) \<rparr>)"
  define dups where "dups = map verdict (filter (\<lambda>e. probability (score e) \<ge> thr) pool)"
  define suggs where "suggs = map verdict
      (filter (\<lambda>e. 0.5 \<le> probability (score e) \<and> probability (score e) < thr) pool)"
  define sortedDups where "sortedDups = sort_key (\<lambda>d. - probability d) dups"
  define sortedSuggs where "sortedSuggs = sort_key (\<lambda>d. - probability d) suggs"
  have thr: "thresholdOf opts = thr"
    by (simp add: thresholdOf_def thr_def similarityThreshold_def split: option.splits)
  have lim: "limitOf opts = (case opt_limit opts of None \<Rightarrow> 50 | Some l \<Rightarrow> l)"
    by (simp add: limitOf_def)
  have mk: "(\<lambda>e. mkDuplicate e (score e)) = verdict"
    by (simp add: mkDuplicate_def verdict_def)
  have tot: "\<forall>e\<in>set pool. \<exists>a. calculateDuplicateProbability newEvent e = Inr a"
    using scored by blast
  from scoreLoop_total[OF tot] obtain d s
    where l0: "scoreLoop newEvent thr pool ([], []) = Inr (d, s)" by blast
  from scoreLoop_buckets[OF l0]
  have "d = dups" and "s = suggs"
    by (simp_all add: spec_duplicatesBucket_scored[OF scored]
        spec_suggestionsBucket_scored[OF scored] mk dups_def suggs_def)
  with l0 have loop: "scoreLoop newEvent thr pool ([], []) = Inr (dups, suggs)" by simp
  have flt: "filter P (sort_key (\<lambda>d. - probability d) xs) = sort_key (\<lambda>d. - probability d) (filter P xs)"
    for P and xs :: "duplicate list"
    by (simp add: filter_sort)
  have emp: "(sort_key (\<lambda>d. - probability d) dups = []) = (dups = [])"
    by (metis length_0_conv length_sort)
  have res: "checkForDuplicates st newEvent opts =
      Inr \<lparr> isDuplicate = (dups \<noteq> []),
            duplicates = take 5 sortedDups,
            suggestions = take 3 sortedSuggs,
            analysis = \<lparr> totalChecked = length pool, threshold = thr,
              highConfidenceDuplicates = length (filter (\<lambda>d. confidence d = HIGH) dups),
              mediumConfidenceDuplicates = length (filter (\<lambda>d. confidence d = MEDIUM) dups) \<rparr> \<rparr>"
    using find loop
    by (simp add: checkForDuplicates_def Let_def thr lim sortByProbability_def
        sortedDups_def sortedSuggs_def flt emp)
  have inj: "verdict e = verdict e' \<longleftrightarrow> e = e'" for e e'
    by (auto simp: verdict_def)
  have mem: "\<forall>e\<in>set pool.
      (verdict e \<in> set dups \<longleftrightarrow> probability (score e) \<ge> thr) \<and>
      (verdict e \<in> set suggs \<longleftrightarrow> 0.5 \<le> probability (score e) \<and> probability (score e) < thr)"
    by (auto simp: dups_def suggs_def inj)
  have sd: "sorted_wrt (\<lambda>x y. probability x \<ge> probability y) sortedDups"
    using sortByProbability_sorted[of dups] by (simp add: sortByProbability_def sortedDups_def)
  have ss: "sorted_wrt (\<lambda>x y. probability x \<ge> probability y) sortedSuggs"
    using sortByProbability_sorted[of suggs] by (simp add: sortByProbability_def sortedSuggs_def)
  have td: "\<forall>x\<in>set (take 5 sortedDups). \<forall>y\<in>set (drop 5 sortedDups).
      probability y \<le> probability x"
    using sorted_take_drop[OF sd] by blast
  have ts: "\<forall>x\<in>set (take 3 sortedSuggs). \<forall>y\<in>set (drop 3 sortedSuggs).
      probability y \<le> probability x"
    using sorted_take_drop[OF ss] by blast
  have sets: "set sortedDups = set dups \<and> length sortedDups = length dups \<and>
      set sortedSuggs = set suggs \<and> length sortedSuggs = length suggs"
    by (simp add: sortedDups_def sortedSuggs_def)
  have lens: "length (take 5 sortedDups) = min 5 (length dups) \<and>
      length (take 3 sortedSuggs) = min 3 (length suggs)"
    by (simp add: sortedDups_def sortedSuggs_def min.commute)
  have "scoreLoop newEvent thr pool ([], []) = Inr (dups, suggs) \<and>
       checkForDuplicates st newEvent opts =
         Inr \<lparr> isDuplicate = (dups \<noteq> []),
               duplicates = take 5 sortedDups,
               suggestions = take 3 sortedSuggs,
               analysis = \<lparr> totalChecked = length pool, threshold = thr,
                 highConfidenceDuplicates = length (filter (\<lambda>d. confidence d = HIGH) dups),
                 mediumConfidenceDuplicates = length (filter (\<lambda>d. confidence d = MEDIUM) dups) \<rparr> \<rparr> \<and>
       (\<forall>e\<in>set pool.
          (verdict e \<in> set dups \<longleftrightarrow> probability (score e) \<ge> thr) \<and>
          (verdict e \<in> set suggs \<longleftrightarrow>
             0.5 \<le> probability (score e) \<and> probability (score e) < thr)) \<and>
       sorted_wrt (\<lambda>x y. probability x \<ge> probability y) (take 5 sortedDups) \<and>
       sorted_wrt (\<lambda>x y. probability x \<ge> probability y) (take 3 sortedSuggs) \<and>
       (\<forall>x\<in>set (take 5 sortedDups). \<forall>y\<in>set (drop 5 sortedDups).
          probability y \<le> probability x) \<and>
       (\<forall>x\<in>set (take 3 sortedSuggs). \<forall>y\<in>set (drop 3 sortedSuggs).
          probability y \<le> probability x) \<and>
       set sortedDups = set dups \<and> length sortedDups = length dups \<and>
       set sortedSuggs = set suggs \<and> length sortedSuggs = length suggs \<and>
       length (take 5 sortedDups) = min 5 (length dups) \<and>
       length (take 3 sortedSuggs) = min 3 (length suggs)"
    using loop res mem sd ss td ts sets lens by (simp only: sorted_wrt_take simp_thms)
  then show ?thesis
    unfolding Let_def thr_def verdict_def dups_def suggs_def sortedDups_def sortedSuggs_def .
qed


theorem checkForDuplicates_partition_witness:
  "Event_find rankingStore
     (buildQuery (scenarioCandidate 0 ''u1'') (opt_excludeEventId advisoryOptions))
     (case opt_limit advisoryOptions of None \<Rightarrow> 50 | Some l \<Rightarrow> l) = Inr rankingPool \<and>
   list_all (\<lambda>e. calculateDuplicateProbability (scenarioCandidate 0 ''u1'') e =
                   Inr (scoreFor (scenarioCandidate 0 ''u1'') e)) rankingPool \<and>
   (\<exists>r. checkForDuplicates rankingStore (scenarioCandidate 0 ''u1'') advisoryOptions = Inr r \<and>
        map (\<lambda>d. ident (event d)) (duplicates r) = [''d0'', ''d1'', ''d2'', ''d3'', ''d4''] \<and>
        map (\<lambda>d. ident (event d)) (suggestions r) = [''s4'', ''s5'', ''s6''] \<and>
        isDuplicate r \<and> threshold (analysis r) = 0.7 \<and> totalChecked (analysis r) = 12 \<and>
        highConfidenceDuplicates (analysis r) = 2 \<and>
        mediumConfidenceDuplicates (analysis r) = 5)"
proof -
  let ?c = "scenarioCandidate 0 ''u1''"
  define v where "v = (\<lambda>e. \<lparr> probability = probability (scoreFor ?c e),
      factors = factors (scoreFor ?c e), event = e,
      confidence = getConfidenceLevel (probability (scoreFor ?c e)) \<rparr>)"
  have la: "list_all (\<lambda>e. calculateDuplicateProbability ?c e = Inr (scoreFor ?c e)) rankingPool"
    using scored_ranking by (simp add: list_all_iff)
  have thr: "(case opt_threshold advisoryOptions of None \<Rightarrow> 0.8 | Some t \<Rightarrow> t) = (0.7 :: real)"
    by (simp add: advisoryOptions_def)
  have fd: "filter (\<lambda>e. 0.7 \<le> probability (scoreFor ?c e)) rankingPool =
      [storedAt ''d3'' 3 ''u1'', storedAt ''d6'' 6 ''u1'', storedAt ''d0'' 0 ''u1'',
       storedAt ''d5'' 5 ''u1'', storedAt ''d1'' 1 ''u1'', storedAt ''d4'' 4 ''u1'',
       storedAt ''d2'' 2 ''u1'']"
    by (simp add: rankingPool_def scoreFor_storedAt scoreFor_chessNight)
  have fs: "filter (\<lambda>e. 0.5 \<le> probability (scoreFor ?c e) \<and> probability (scoreFor ?c e) < 0.7)
      rankingPool =
      [storedAt ''s5'' 5 ''u2'', storedAt ''s7'' 7 ''u2'', storedAt ''s4'' 4 ''u2'',
       storedAt ''s6'' 6 ''u2'']"
    by (simp add: rankingPool_def scoreFor_storedAt scoreFor_chessNight)
  have pv: "probability (v (storedAt i k org)) =
      469 / 600 - 3 / 140 * real k + (if org = ''u1'' then 1 / 20 else 0)" if "k \<le> 7" for i k org
    using that by (simp add: v_def scoreFor_storedAt)
  have cv: "confidence (v (storedAt i k org)) =
      getConfidenceLevel (469 / 600 - 3 / 140 * real k + (if org = ''u1'' then 1 / 20 else 0))"
    if "k \<le> 7" for i k org
    using that by (simp add: v_def scoreFor_storedAt)
  have ev: "event (v e) = e" for e by (simp add: v_def)
  have sd: "sort_key (\<lambda>d. - probability d)
      (map v [storedAt ''d3'' 3 ''u1'', storedAt ''d6'' 6 ''u1'', storedAt ''d0'' 0 ''u1'',
              storedAt ''d5'' 5 ''u1'', storedAt ''d1'' 1 ''u1'', storedAt ''d4'' 4 ''u1'',
              storedAt ''d2'' 2 ''u1'']) =
      map v [storedAt ''d0'' 0 ''u1'', storedAt ''d1'' 1 ''u1'', storedAt ''d2'' 2 ''u1'',
             storedAt ''d3'' 3 ''u1'', storedAt ''d4'' 4 ''u1'', storedAt ''d5'' 5 ''u1'',
             storedAt ''d6'' 6 ''u1'']"
    by (simp add: pv)
  have ss: "sort_key (\<lambda>d. - probability d)
      (map v [storedAt ''s5'' 5 ''u2'', storedAt ''s7'' 7 ''u2'', storedAt ''s4'' 4 ''u2'',
              storedAt ''s6'' 6 ''u2'']) =
      map v [storedAt ''s4'' 4 ''u2'', storedAt ''s5'' 5 ''u2'', storedAt ''s6'' 6 ''u2'',
             storedAt ''s7'' 7 ''u2'']"
    by (simp add: pv)
  have hi: "length (filter (\<lambda>d. confidence d = HIGH)
      (map v [storedAt ''d3'' 3 ''u1'', storedAt ''d6'' 6 ''u1'', storedAt ''d0'' 0 ''u1'',
              storedAt ''d5'' 5 ''u1'', storedAt ''d1'' 1 ''u1'', storedAt ''d4'' 4 ''u1'',
              storedAt ''d2'' 2 ''u1''])) = 2"
    by (simp add: cv getConfidenceLevel_def)
  have me: "length (filter (\<lambda>d. confidence d = MEDIUM)
      (map v [storedAt ''d3'' 3 ''u1'', storedAt ''d6'' 6 ''u1'', storedAt ''d0'' 0 ''u1'',
              storedAt ''d5'' 5 ''u1'', storedAt ''d1'' 1 ''u1'', storedAt ''d4'' 4 ''u1'',
              storedAt ''d2'' 2 ''u1''])) = 5"
    by (simp add: cv getConfidenceLevel_def)
  note T = checkForDuplicates_partition[OF find_ranking scored_ranking,
      unfolded Let_def thr, folded v_def, unfolded fd fs sd ss hi me]
  note res = T[THEN conjunct2, THEN conjunct1]
  have "\<exists>r. checkForDuplicates rankingStore ?c advisoryOptions = Inr r \<and>
        map (\<lambda>d. ident (event d)) (duplicates r) = [''d0'', ''d1'', ''d2'', ''d3'', ''d4''] \<and>
        map (\<lambda>d. ident (event d)) (suggestions r) = [''s4'', ''s5'', ''s6''] \<and>
        isDuplicate r \<and> threshold (analysis r) = 0.7 \<and> totalChecked (analysis r) = 12 \<and>
        highConfidenceDuplicates (analysis r) = 2 \<and>
        mediumConfidenceDuplicates (analysis r) = 5"
    unfolding res by (simp add: ev ident_storedAt rankingPool_def)
  with find_ranking la show ?thesis by simp
qed

text \<open>
  C4. The creation route does not proceed when the detector fails. With a store whose
  query fails, a request that does not skip the duplicate check is answered with
  status 500 and nothing is created, although the same request with the skip flag is
  answered with 201 and creates the event. A stored record that cannot be scored has
  the same effect while the store works.
\<close>

theorem createEvent_detector_failure:
  "createEvent 0 ''n1'' (scenarioRequest False) outageStore =
     (reply 500 False ''Server error creating event'', outageStore) \<and>
   createEvent 0 ''n1'' (scenarioRequest True) outageStore =
     (reply 201 True ''Event created successfully'',
      outageStore\<lparr> docs := docs outageStore @ [eventOfBody ''n1'' ''draft'' (scenarioRequest True)] \<rparr>) \<and>
   createEvent 0 ''n1'' (scenarioRequest False) orphanStore =
     (reply 500 False ''Server error creating event'', orphanStore)"
proof -
  have a: "createEvent 0 ''n1'' (scenarioRequest False) outageStore =
     (reply 500 False ''Server error creating event'', outageStore)"
    by (simp add: createEvent_def scenarioRequest_def outageStore_def checkForDuplicates_def
        Event_find_def Let_def)
  have b: "createEvent 0 ''n1'' (scenarioRequest True) outageStore =
     (reply 201 True ''Event created successfully'',
      outageStore\<lparr> docs := docs outageStore @ [eventOfBody ''n1'' ''draft'' (scenarioRequest True)] \<rparr>)"
    by (simp add: createEvent_def scenarioRequest_def outageStore_def createAndRespond_def
        Event_create_def)
  have f: "Event_find orphanStore
      (buildQuery (eventOfBody [] [] (scenarioRequest False)) None) 50 =
      Inr [orphanStored 0, scenarioStored 0 ''u1'']"
    by (simp add: store_ops orphanStore_def eventOfBody_def scenarioRequest_def example_events)
  have g: "calculateDuplicateProbability (eventOfBody [] [] (scenarioRequest False))
      (orphanStored 0) = Inl TypeError"
    by (simp add: calculateDuplicateProbability_def eventOfBody_def example_events Let_def)
  have c: "createEvent 0 ''n1'' (scenarioRequest False) orphanStore =
     (reply 500 False ''Server error creating event'', orphanStore)"
    by (simp add: createEvent_def checkForDuplicates_def Let_def limitOf_def f g)
       (simp add: scenarioRequest_def)
  from a b c show ?thesis by simp
qed

text \<open>
  C5, as amended. When the pool holds an event whose scoring throws,
  \<open>checkForDuplicates\<close> returns no result: the whole call fails with the one error
  \<^verbatim>\<open>Failed to check for duplicate events\<close>.
\<close>

theorem pair_failure_aborts:
  assumes find: "Event_find st (buildQuery newEvent (opt_excludeEventId opts)) (limitOf opts) = Inr pool"
    and e: "e \<in> set pool"
    and bad: "calculateDuplicateProbability newEvent e = Inl err"
  shows "checkForDuplicates st newEvent opts = Inl (Error ''Failed to check for duplicate events'')"
proof -
  from scoreLoop_fails[OF e bad] obtain err' where
    "scoreLoop newEvent (thresholdOf opts) pool ([], []) = Inl err'" by blast
  then show ?thesis by (simp add: checkForDuplicates_def Let_def find)
qed

theorem pair_failure_aborts_witness:
  "Event_find orphanStore
     (buildQuery (scenarioCandidate 0 ''u1'') (opt_excludeEventId defaultOptions))
     (limitOf defaultOptions) = Inr [orphanStored 0, scenarioStored 0 ''u1''] \<and>
   orphanStored 0 \<in> set [orphanStored 0, scenarioStored 0 ''u1''] \<and>
   calculateDuplicateProbability (scenarioCandidate 0 ''u1'') (orphanStored 0) = Inl TypeError \<and>
   checkForDuplicates orphanStore (scenarioCandidate 0 ''u1'') defaultOptions =
     Inl (Error ''Failed to check for duplicate events'')"
proof -
  have m: "orphanStored 0 \<in> set [orphanStored 0, scenarioStored 0 ''u1'']" by simp
  from pair_failure_aborts[OF find_orphan m score_orphan] find_orphan m score_orphan
  show ?thesis by simp
qed

text \<open>
  C5 as stated fails: with one record that cannot be scored and one that scores
  499/600 in the pool, the call returns the error, not a result with the second record.
\<close>

theorem pair_failure_counterexample:
  "calculateDuplicateProbability (scenarioCandidate 0 ''u1'') (scenarioStored 0 ''u1'') =
     Inr \<lparr> probability = 499 / 600, factors = scenarioFactors \<rparr> \<and>
   checkForDuplicates orphanStore (scenarioCandidate 0 ''u1'') defaultOptions =
     Inl (Error ''Failed to check for duplicate events'')"
proof -
  have "scoreLoop (scenarioCandidate 0 ''u1'') (thresholdOf defaultOptions)
      [orphanStored 0, scenarioStored 0 ''u1''] ([], []) = Inl TypeError"
    by (simp add: score_orphan)
  then have "checkForDuplicates orphanStore (scenarioCandidate 0 ''u1'') defaultOptions =
      Inl (Error ''Failed to check for duplicate events'')"
    by (simp add: checkForDuplicates_def Let_def find_orphan)
  then show ?thesis using score_first by simp
qed

text \<open>
  C6, as amended. A text compared with itself scores 1 when it has a word longer than
  two characters, 0.6 when it is not empty but has no such word, and 0 when it is empty.
\<close>

theorem combined_similarity_self:
  "calculateCombinedSimilarity s s = (if s = [] then 0 else if wordSet s = [] then 3 / 5 else 1)"
  by (rule calculateCombinedSimilarity_self)

text \<open>C6 as stated fails at the empty string, where the score is 0.\<close>

theorem combined_similarity_self_counterexample:
  "calculateCombinedSimilarity [] [] = 0 \<and> calculateCombinedSimilarity [] [] \<noteq> 1"
  by (simp add: calculateCombinedSimilarity_def calculateTextSimilarity_def
      calculateJaccardSimilarity_def)

text \<open>
  C7. \<open>getConfidenceLevel\<close> returns \<open>VERY_HIGH\<close> exactly from 0.9, \<open>HIGH\<close> exactly on
  [0.8, 0.9), \<open>MEDIUM\<close> exactly on [0.6, 0.8), \<open>LOW\<close> exactly on [0.4, 0.6) and
  \<open>VERY_LOW\<close> exactly below 0.4, with the six boundary values of the specification.
\<close>

theorem getConfidenceLevel_tiers:
  "(getConfidenceLevel p = VERY_HIGH \<longleftrightarrow> p \<ge> 0.9) \<and>
   (getConfidenceLevel p = HIGH \<longleftrightarrow> 0.8 \<le> p \<and> p < 0.9) \<and>
   (getConfidenceLevel p = MEDIUM \<longleftrightarrow> 0.6 \<le> p \<and> p < 0.8) \<and>
   (getConfidenceLevel p = LOW \<longleftrightarrow> 0.4 \<le> p \<and> p < 0.6) \<and>
   (getConfidenceLevel p = VERY_LOW \<longleftrightarrow> p < 0.4) \<and>
   getConfidenceLevel 0.9 = VERY_HIGH \<and> getConfidenceLevel 0.89999 = HIGH \<and>
   getConfidenceLevel 0.8 = HIGH \<and> getConfidenceLevel 0.6 = MEDIUM \<and>
   getConfidenceLevel 0.4 = LOW \<and> getConfidenceLevel 0.39999 = VERY_LOW"
  by (simp add: getConfidenceLevel_def)

text \<open>
  C8. Whenever both organizers are present, \<open>calculateDuplicateProbability\<close> returns,
  and the probability and each of the six factors lie between 0 and 1; the category
  and organizer factors are 0 or 1, and the six weights add up to 1.
\<close>

theorem calculateDuplicateProbability_unit_interval:
  assumes "organizer event1 = Some o1" and "organizer event2 = Some o2"
  shows "\<exists>a. calculateDuplicateProbability event1 event2 = Inr a \<and>
    0 \<le> probability a \<and> probability a \<le> 1 \<and>
    0 \<le> titleSimilarity (factors a) \<and> titleSimilarity (factors a) \<le> 1 \<and>
    0 \<le> descriptionSimilarity (factors a) \<and> descriptionSimilarity (factors a) \<le> 1 \<and>
    0 \<le> dateProximity (factors a) \<and> dateProximity (factors a) \<le> 1 \<and>
    0 \<le> venueProximity (factors a) \<and> venueProximity (factors a) \<le> 1 \<and>
    (categoryMatch (factors a) = 0 \<or> categoryMatch (factors a) = 1) \<and>
    (organizerMatch (factors a) = 0 \<or> organizerMatch (factors a) = 1) \<and>
    weight_title + weight_description + weight_date + weight_venue +
      weight_category + weight_organizer = 1"
proof -
  define t where "t = calculateCombinedSimilarity (title event1) (title event2)"
  define d where "d = calculateCombinedSimilarity (description event1) (description event2)"
  define p where "p = calculateDateProximity (start event1) (start event2)"
  define v where "v = calculateVenueProximity (venue event1) (venue event2)"
  define c :: real where "c = (if category event1 = category event2 then 1 else 0)"
  define g :: real where "g = (if o1 = o2 then 1 else 0)"
  have rt: "0 \<le> t \<and> t \<le> 1" unfolding t_def by (rule calculateCombinedSimilarity_range)
  have rd: "0 \<le> d \<and> d \<le> 1" unfolding d_def by (rule calculateCombinedSimilarity_range)
  have rp: "0 \<le> p \<and> p \<le> 1" unfolding p_def by (rule calculateDateProximity_range)
  have rv: "0 \<le> v \<and> v \<le> 1" unfolding v_def by (rule calculateVenueProximity_range)
  have rc: "0 \<le> c \<and> c \<le> 1" and c01: "c = 0 \<or> c = 1" by (simp_all add: c_def)
  have rg: "0 \<le> g \<and> g \<le> 1" and g01: "g = 0 \<or> g = 1" by (simp_all add: g_def)
  let ?a = "\<lparr> probability = t * weight_title + d * weight_description + p * weight_date +
                  v * weight_venue + c * weight_category + g * weight_organizer,
               factors = \<lparr> titleSimilarity = t, descriptionSimilarity = d, dateProximity = p,
                           venueProximity = v, categoryMatch = c, organizerMatch = g \<rparr> \<rparr>"
  have eq: "calculateDuplicateProbability event1 event2 = Inr ?a"
    using assms
    by (simp add: calculateDuplicateProbability_def Let_def t_def d_def p_def v_def c_def g_def)
  have lo: "0 \<le> probability ?a" using rt rd rp rv rc rg by (simp add: weights)
  have hi: "probability ?a \<le> 1" using rt rd rp rv rc rg by (simp add: weights)
  have w: "weight_title + weight_description + weight_date + weight_venue +
      weight_category + weight_organizer = 1" by (simp add: weights)
  show ?thesis
    using eq lo hi rt rd rp rv c01 g01 w by (intro exI[of _ ?a]) simp
qed

theorem calculateDuplicateProbability_unit_interval_witness:
  "organizer (scenarioCandidate 0 ''u1'') = Some ''u1'' \<and>
   organizer (scenarioStored 86400000 ''u2'') = Some ''u2'' \<and>
   (\<exists>a. calculateDuplicateProbability (scenarioCandidate 0 ''u1'') (scenarioStored 86400000 ''u2'')
          = Inr a \<and> 0 \<le> probability a \<and> probability a \<le> 1)"
proof -
  have h1: "organizer (scenarioCandidate 0 ''u1'') = Some ''u1''"
    by (simp add: scenarioCandidate_def)
  have h2: "organizer (scenarioStored 86400000 ''u2'') = Some ''u2''"
    by (simp add: scenarioStored_def)
  from calculateDuplicateProbability_unit_interval[OF h1 h2] h1 h2 show ?thesis by blast
qed

text \<open>
  C9, as amended. With \<open>days\<close> the difference in milliseconds divided by 86400000 and
  rounded up, the date proximity is 1 for 0 days, 0 for more than 7 days and
  \<open>1 - days / 7\<close> otherwise; it is 1 for equal instants, 0 at 8 days, and 3/7 at
  3.5 days, which count as 4 days.
\<close>

theorem calculateDateProximity_days:
  "calculateDateProximity t1 t2 =
     (let days = \<lceil>real_of_int \<bar>t1 - t2\<bar> / 86400000\<rceil>
      in if days = 0 then 1 else if days > 7 then 0 else 1 - real_of_int days / 7) \<and>
   calculateDateProximity t t = 1 \<and>
   calculateDateProximity t (t + 8 * 86400000) = 0 \<and>
   calculateDateProximity t (t + 302400000) = 3 / 7"
  by (simp add: calculateDateProximity_def dateProximityDays_def Let_def)

text \<open>
  C9 as stated fails at 3.5 days (302400000 ms): the proximity is 3/7, which is not
  within 0.05 of 0.5.
\<close>

theorem calculateDateProximity_counterexample:
  "calculateDateProximity 0 302400000 = 3 / 7 \<and>
   \<not> \<bar>calculateDateProximity 0 302400000 - 0.5\<bar> < 0.05"
  by (simp add: calculateDateProximity_def dateProximityDays_def Let_def)

text \<open>
  C10. In every result of \<open>checkForDuplicates\<close> no event is both among the duplicates
  and among the suggestions: a duplicate has probability at least the threshold, a
  suggestion has probability below it (and at least 0.5). With a threshold of at most
  0.5 there are no suggestions.
\<close>

theorem buckets_disjoint:
  assumes "checkForDuplicates st newEvent opts = Inr r"
  shows "(\<forall>d\<in>set (duplicates r). \<forall>s\<in>set (suggestions r). event d \<noteq> event s) \<and>
    (\<forall>d\<in>set (duplicates r). probability d \<ge> thresholdOf opts) \<and>
    (\<forall>s\<in>set (suggestions r). probability s < thresholdOf opts \<and> probability s \<ge> 0.5) \<and>
    (thresholdOf opts \<le> 0.5 \<longrightarrow> suggestions r = [])"
proof -
  let ?thr = "thresholdOf opts"
  from checkForDuplicates_cases[OF assms] obtain pool dups suggs
    where loop: "scoreLoop newEvent ?thr pool ([], []) = Inr (dups, suggs)"
      and dr: "duplicates r = take 5 (sortByProbability dups)"
      and sr: "suggestions r = take 3 (sortByProbability suggs)" by blast
  from scoreLoop_buckets[OF loop]
  have d: "dups = spec_duplicatesBucket newEvent ?thr pool"
    and s: "suggs = spec_suggestionsBucket newEvent ?thr pool" by simp_all
  have subd: "set (duplicates r) \<subseteq> set dups"
    using set_take_subset[of 5 "sortByProbability dups"] by (simp add: dr set_sortByProbability)
  have subs: "set (suggestions r) \<subseteq> set suggs"
    using set_take_subset[of 3 "sortByProbability suggs"] by (simp add: sr set_sortByProbability)
  have D: "\<exists>a. calculateDuplicateProbability newEvent (event x) = Inr a \<and>
          probability x = probability a \<and> probability a \<ge> ?thr"
    if "x \<in> set (duplicates r)" for x
  proof -
    from that subd have "x \<in> set (spec_duplicatesBucket newEvent ?thr pool)" by (auto simp: d)
    then obtain e a where "calculateDuplicateProbability newEvent e = Inr a"
      and "probability a \<ge> ?thr" and "x = mkDuplicate e a"
      unfolding mem_duplicatesBucket by blast
    then show ?thesis by (auto simp: mkDuplicate_def)
  qed
  have S: "\<exists>a. calculateDuplicateProbability newEvent (event x) = Inr a \<and>
          probability x = probability a \<and> probability a < ?thr \<and> probability a \<ge> 0.5"
    if "x \<in> set (suggestions r)" for x
  proof -
    from that subs have "x \<in> set (spec_suggestionsBucket newEvent ?thr pool)" by (auto simp: s)
    then obtain e a where "calculateDuplicateProbability newEvent e = Inr a"
      and "probability a < ?thr" and "probability a \<ge> 0.5" and "x = mkDuplicate e a"
      unfolding mem_suggestionsBucket by blast
    then show ?thesis by (auto simp: mkDuplicate_def)
  qed
  have disj: "\<forall>d\<in>set (duplicates r). \<forall>s\<in>set (suggestions r). event d \<noteq> event s"
  proof (intro ballI notI)
    fix x y assume x: "x \<in> set (duplicates r)" and y: "y \<in> set (suggestions r)"
      and eq: "event x = event y"
    from D[OF x] obtain a where "calculateDuplicateProbability newEvent (event x) = Inr a"
      and "probability a \<ge> ?thr" by blast
    moreover from S[OF y] obtain b where "calculateDuplicateProbability newEvent (event y) = Inr b"
      and "probability b < ?thr" by blast
    ultimately show False using eq by simp
  qed
  have pd: "\<forall>d\<in>set (duplicates r). probability d \<ge> ?thr" using D by fastforce
  have ps: "\<forall>s\<in>set (suggestions r). probability s < ?thr \<and> probability s \<ge> 0.5"
    using S by fastforce
  have emp: "?thr \<le> 0.5 \<longrightarrow> suggestions r = []"
  proof
    assume le: "?thr \<le> 0.5"
    show "suggestions r = []"
    proof (cases "suggestions r")
      case Nil
      then show ?thesis .
    next
      case (Cons y ys)
      then have "y \<in> set (suggestions r)" by simp
      with ps le show ?thesis by fastforce
    qed
  qed
  from disj pd ps emp show ?thesis by blast
qed

theorem buckets_disjoint_witness:
  "checkForDuplicates exampleStore (scenarioCandidate 0 ''u1'') defaultOptions = Inr exampleResult \<and>
   duplicates exampleResult = [firstVerdict] \<and> suggestions exampleResult = [secondVerdict] \<and>
   event firstVerdict \<noteq> event secondVerdict \<and>
   probability secondVerdict < thresholdOf defaultOptions \<and>
   checkForDuplicates exampleStore (scenarioCandidate 0 ''u1'') halfOptions = Inr exampleResultHalf \<and>
   thresholdOf halfOptions \<le> 0.5 \<and> suggestions exampleResultHalf = []"
proof -
  have d: "duplicates exampleResult = [firstVerdict]"
    and s: "suggestions exampleResult = [secondVerdict]" by (simp_all add: exampleResult_def)
  have t: "thresholdOf halfOptions \<le> 0.5" by (simp add: thresholdOf_def halfOptions_def)
  from buckets_disjoint[OF check_example] d s
  have "event firstVerdict \<noteq> event secondVerdict"
    and "probability secondVerdict < thresholdOf defaultOptions" by simp_all
  moreover from buckets_disjoint[OF check_example_half] t
  have "suggestions exampleResultHalf = []" by blast
  ultimately show ?thesis using check_example check_example_half d s t by simp
qed

end
